theory Spec2Isabelle
  imports Complex_Main "HOL-Library.Sublist"
begin

section \<open>Python values\<close>

text \<open>
  The engines take a VM record as a \<^verbatim>\<open>Dict[str, Any]\<close>.  The values a field can hold
  are the values of a parsed JSON or YAML document.  A float is a real number, one of the
  two infinities or NaN; every comparison the engines make is against an integer literal,
  and Python compares an int with a float exactly.  A dict is an association list in
  insertion order.  Strings are lists of 8-bit characters, the UTF-8 bytes of the Python
  string; \<open>ascii\<close> marks the strings of ASCII characters only, on which \<open>lower\<close> and
  \<open>py_int\<close> below are Python's \<^verbatim>\<open>str.lower\<close> and \<^verbatim>\<open>int\<close>.
\<close>

datatype pyfloat = Fin real | PosInf | NegInf | NaN

datatype pyval =
    PNone
  | PBool bool
  | PInt int
  | PFloat pyfloat
  | PStr string
  | PList "pyval list"
  | PDict "(string \<times> pyval) list"

type_synonym pydict = "(string \<times> pyval) list"

text \<open>
  Exceptions.  \<open>RuleError name field value allowed\<close> is the \<^verbatim>\<open>ValueError\<close> of
  \<^verbatim>\<open>_validate_rules\<close>, whose message is
  \<^verbatim>\<open>Rule '<name>' has invalid <field> '<value>'. Allowed: <allowed>\<close>; the message
  prints a Python set, whose element order is not fixed, so the error keeps the parts.
\<close>

datatype py_error =
    TypeError
  | AttributeError
  | IndexError
  | OverflowError
  | ValueError string
  | RuleError string string string "string set"

text \<open>\<^verbatim>\<open>d.get(k, default)\<close>; \<^verbatim>\<open>d.get(k)\<close> is \<open>dict_get d k PNone\<close>.\<close>

definition dict_get :: "pydict \<Rightarrow> string \<Rightarrow> pyval \<Rightarrow> pyval" where
  "dict_get d k dflt = (case map_of d k of Some v \<Rightarrow> v | None \<Rightarrow> dflt)"

text \<open>Truth value of an object, as \<^verbatim>\<open>or\<close>, \<^verbatim>\<open>and\<close> and \<^verbatim>\<open>if\<close> take it.\<close>

fun py_truthy :: "pyval \<Rightarrow> bool" where
  "py_truthy PNone = False"
| "py_truthy (PBool b) = b"
| "py_truthy (PInt i) = (i \<noteq> 0)"
| "py_truthy (PFloat f) = (f \<noteq> Fin 0)"
| "py_truthy (PStr s) = (s \<noteq> [])"
| "py_truthy (PList xs) = (xs \<noteq> [])"
| "py_truthy (PDict kvs) = (kvs \<noteq> [])"

text \<open>
  \<^verbatim>\<open>v > n\<close> and \<^verbatim>\<open>v <= n\<close> for an integer literal \<open>n\<close>.  \<^verbatim>\<open>bool\<close> is a subclass of
  \<^verbatim>\<open>int\<close>; a comparison with NaN is false; every other type raises \<^verbatim>\<open>TypeError\<close>.
\<close>

fun float_gt :: "pyfloat \<Rightarrow> int \<Rightarrow> bool" where
  "float_gt (Fin r) n = (of_int n < r)"
| "float_gt PosInf n = True"
| "float_gt NegInf n = False"
| "float_gt NaN n = False"

fun float_le :: "pyfloat \<Rightarrow> int \<Rightarrow> bool" where
  "float_le (Fin r) n = (r \<le> of_int n)"
| "float_le PosInf n = False"
| "float_le NegInf n = True"
| "float_le NaN n = False"

fun py_gt :: "pyval \<Rightarrow> int \<Rightarrow> py_error + bool" where
  "py_gt (PBool b) n = Inr (n < (if b then 1 else 0))"
| "py_gt (PInt i) n = Inr (n < i)"
| "py_gt (PFloat f) n = Inr (float_gt f n)"
| "py_gt PNone n = Inl TypeError"
| "py_gt (PStr s) n = Inl TypeError"
| "py_gt (PList xs) n = Inl TypeError"
| "py_gt (PDict kvs) n = Inl TypeError"

fun py_le :: "pyval \<Rightarrow> int \<Rightarrow> py_error + bool" where
  "py_le (PBool b) n = Inr ((if b then 1 else 0) \<le> n)"
| "py_le (PInt i) n = Inr (i \<le> n)"
| "py_le (PFloat f) n = Inr (float_le f n)"
| "py_le PNone n = Inl TypeError"
| "py_le (PStr s) n = Inl TypeError"
| "py_le (PList xs) n = Inl TypeError"
| "py_le (PDict kvs) n = Inl TypeError"

subsection \<open>Strings\<close>

definition ascii :: "string \<Rightarrow> bool" where
  "ascii s = list_all (\<lambda>c. (of_char c :: nat) < 128) s"

text \<open>\<^verbatim>\<open>str.lower()\<close> on ASCII text: the letters A to Z move down, all else stays.\<close>

definition lower_char :: "char \<Rightarrow> char" where
  "lower_char c =
     (case map_of (zip ''ABCDEFGHIJKLMNOPQRSTUVWXYZ'' ''abcdefghijklmnopqrstuvwxyz'') c of
        Some l \<Rightarrow> l
      | None \<Rightarrow> c)"

definition lower :: "string \<Rightarrow> string" where
  "lower s = map lower_char s"

text \<open>
  \<^verbatim>\<open>v.lower()\<close> on an arbitrary object: only a string has the method.
\<close>

fun call_lower :: "pyval \<Rightarrow> py_error + string" where
  "call_lower (PStr s) = Inr (lower s)"
| "call_lower v = Inl AttributeError"

text \<open>\<^verbatim>\<open>sep.join(xs)\<close> on a list of strings.\<close>

fun join :: "string \<Rightarrow> string list \<Rightarrow> string" where
  "join sep [] = []"
| "join sep [x] = x"
| "join sep (x # y # ys) = x @ sep @ join sep (y # ys)"

text \<open>\<^verbatim>\<open>str(i)\<close> of an integer: its decimal digits, with a minus sign when negative.\<close>

definition digit_char :: "nat \<Rightarrow> char" where
  "digit_char d = ''0123456789'' ! d"

function str_nat :: "nat \<Rightarrow> string" where
  "str_nat n = (if n < 10 then [digit_char n] else str_nat (n div 10) @ [digit_char (n mod 10)])"
  by pat_completeness auto
termination
  by (relation "measure id") auto

declare str_nat.simps [simp del]

definition str_int :: "int \<Rightarrow> string" where
  "str_int i = (if i < 0 then CHR ''-'' # str_nat (nat (- i)) else str_nat (nat i))"

text \<open>
  \<^verbatim>\<open>str(v)\<close>, which an f-string applies to each substituted value.  The printed form of a
  float (the shortest decimal that reads back) and of a list or dict (the \<^verbatim>\<open>repr\<close> of
  its elements) is not modelled: it is the parameter \<open>rp\<close>, and every result below holds
  for every \<open>rp\<close>.
\<close>

fun py_str :: "(pyval \<Rightarrow> string) \<Rightarrow> pyval \<Rightarrow> string" where
  "py_str rp PNone = ''None''"
| "py_str rp (PBool b) = (if b then ''True'' else ''False'')"
| "py_str rp (PInt i) = str_int i"
| "py_str rp (PStr s) = s"
| "py_str rp v = rp v"

text \<open>
  \<^verbatim>\<open>int(s)\<close> of an ASCII string, base 10: surrounding whitespace is dropped, one sign
  is allowed, then digits, where single underscores may separate digits.  CPython refuses
  a string of more than \<^verbatim>\<open>sys.get_int_max_str_digits()\<close> digits, 4300 unless configured
  otherwise; signs, underscores and whitespace do not count.  \<open>None\<close> is \<^verbatim>\<open>ValueError\<close>.
\<close>

definition is_space :: "char \<Rightarrow> bool" where
  "is_space c = (let n = (of_char c :: nat) in (9 \<le> n \<and> n \<le> 13) \<or> n = 32)"

definition is_digit :: "char \<Rightarrow> bool" where
  "is_digit c = (let n = (of_char c :: nat) in 48 \<le> n \<and> n \<le> 57)"

definition strip :: "string \<Rightarrow> string" where
  "strip s = rev (dropWhile is_space (rev (dropWhile is_space s)))"

fun int_body :: "string \<Rightarrow> bool" where
  "int_body [] = False"
| "int_body [c] = is_digit c"
| "int_body (c # d # cs) =
     (is_digit c \<and> (if d = CHR ''_'' then int_body cs else int_body (d # cs)))"

definition digits_value :: "string \<Rightarrow> int" where
  "digits_value ds = foldl (\<lambda>a c. 10 * a + (int (of_char c) - 48)) 0 (filter is_digit ds)"

definition int_max_str_digits :: nat where
  "int_max_str_digits = 4300"

definition int_digits :: "string \<Rightarrow> int option" where
  "int_digits ds =
     (if int_body ds \<and> length (filter is_digit ds) \<le> int_max_str_digits
      then Some (digits_value ds) else None)"

definition py_int :: "string \<Rightarrow> int option" where
  "py_int s =
     (case strip s of
        [] \<Rightarrow> None
      | c # cs \<Rightarrow>
          if c = CHR ''-'' then map_option uminus (int_digits cs)
          else if c = CHR ''+'' then int_digits cs
          else int_digits (c # cs))"

text \<open>
  \<^verbatim>\<open>t.split("=", 1)\<close>: at most one split, at the first \<^verbatim>\<open>=\<close>; the result has one
  element when there is none.
\<close>

definition split_eq1 :: "string \<Rightarrow> string list" where
  "split_eq1 t =
     (let a = takeWhile (\<lambda>c. c \<noteq> CHR ''='') t; b = dropWhile (\<lambda>c. c \<noteq> CHR ''='') t
      in case b of [] \<Rightarrow> [a] | _ # rest \<Rightarrow> [a, rest])"

text \<open>\<^verbatim>\<open>xs[i]\<close> for a non-negative literal index.\<close>

definition index :: "'a list \<Rightarrow> nat \<Rightarrow> py_error + 'a" where
  "index xs i = (if i < length xs then Inr (xs ! i) else Inl IndexError)"

text \<open>
  \<^verbatim>\<open>for t in v\<close>: a list gives its elements, a string its characters, a dict its keys;
  nothing else can be iterated.
\<close>

fun py_iter :: "pyval \<Rightarrow> py_error + pyval list" where
  "py_iter (PList xs) = Inr xs"
| "py_iter (PStr s) = Inr (map (\<lambda>c. PStr [c]) s)"
| "py_iter (PDict kvs) = Inr (map (\<lambda>kv. PStr (fst kv)) kvs)"
| "py_iter v = Inl TypeError"

section \<open>The classification engine (\<^verbatim>\<open>classifier.py\<close>)\<close>

text \<open>
  A classification result is the tuple \<^verbatim>\<open>(category, confidence, matched_rule_name, reason)\<close>.
  The engine object holds the loaded rule list in \<^verbatim>\<open>self.rules\<close>.
\<close>

type_synonym result = "string \<times> string \<times> string \<times> string"

record engine =
  rules :: "pyval list"

definition ALLOWED_CATEGORIES :: "string set" where
  "ALLOWED_CATEGORIES = {''rehost'', ''refactor_candidate'', ''retire'', ''keep''}"

definition ALLOWED_CONFIDENCES :: "string set" where
  "ALLOWED_CONFIDENCES = {''low'', ''medium'', ''high''}"

subsection \<open>\<^verbatim>\<open>_extract_powered_off_days\<close>\<close>

text \<open>
  The body of the \<^verbatim>\<open>try\<close>: \<^verbatim>\<open>int(t.split("=", 1)[1])\<close>, with the exceptions it can raise.
\<close>

definition tag_days :: "string \<Rightarrow> py_error + int" where
  "tag_days t =
     (case index (split_eq1 t) 1 of
        Inl e \<Rightarrow> Inl e
      | Inr num \<Rightarrow>
          (case py_int num of
             None \<Rightarrow> Inl (ValueError ''invalid literal for int() with base 10'')
           | Some n \<Rightarrow> Inr n))"

text \<open>
  The loop over the tags.  Calling \<^verbatim>\<open>startswith\<close> on anything but a string raises
  \<^verbatim>\<open>AttributeError\<close>, outside the \<^verbatim>\<open>try\<close>; inside it every exception returns 0.
\<close>

fun scan_tags :: "pyval list \<Rightarrow> py_error + int" where
  "scan_tags [] = Inr 0"
| "scan_tags (PStr t # ts) =
     (if prefix ''powered_off_days='' t
      then (case tag_days t of Inl e \<Rightarrow> Inr 0 | Inr n \<Rightarrow> Inr n)
      else scan_tags ts)"
| "scan_tags (v # ts) = Inl AttributeError"

definition extract_powered_off_days :: "pyval \<Rightarrow> py_error + int" where
  "extract_powered_off_days tags =
     (case py_iter tags of Inl e \<Rightarrow> Inl e | Inr ts \<Rightarrow> scan_tags ts)"

subsection \<open>\<^verbatim>\<open>classify\<close>, tier by tier\<close>

text \<open>
  Each tier is given as the source has it, returning \<open>Some\<close> result when its
  \<^verbatim>\<open>return\<close> is taken and \<open>None\<close> when control falls through to the next tier.
\<close>

text \<open>Priority 1 (lines 83-92).\<close>

definition zombie_reason :: "int \<Rightarrow> string" where
  "zombie_reason d = ''Powered off for '' @ str_int d @ '' days; requires decommission''"

definition zombie_tier :: "pydict \<Rightarrow> py_error + result option" where
  "zombie_tier vm =
     (if dict_get vm ''power_state'' PNone = PStr ''poweredOff''
      then (case extract_powered_off_days (dict_get vm ''tags'' (PList [])) of
              Inl e \<Rightarrow> Inl e
            | Inr d \<Rightarrow>
                if d \<noteq> 0 \<and> 60 < d
                then Inr (Some (''retire'', ''high'', ''zombie-detection'', zombie_reason d))
                else Inr None)
      else Inr None)"

text \<open>Priority 2 (lines 94-104): \<^verbatim>\<open>(vm.get("guest_os") or "").lower()\<close> and the pattern loop.\<close>

definition guest_os_lower :: "pydict \<Rightarrow> py_error + string" where
  "guest_os_lower vm =
     (let g = dict_get vm ''guest_os'' PNone
      in call_lower (if py_truthy g then g else PStr []))"

definition legacy_patterns :: "(string \<times> string) list" where
  "legacy_patterns =
     [(''2008'', ''Windows Server 2008 legacy OS requires on-premises infrastructure''),
      (''2003'', ''Windows Server 2003 legacy OS requires on-premises infrastructure''),
      (''rhel 6'', ''RHEL 6 legacy OS not supported in cloud targets''),
      (''centos 6'', ''CentOS 6 legacy OS not supported in cloud targets'')]"

fun legacy_scan :: "(string \<times> string) list \<Rightarrow> string \<Rightarrow> result option" where
  "legacy_scan [] guest_os = None"
| "legacy_scan ((pattern, reason) # ps) guest_os =
     (if sublist pattern guest_os
      then Some (''keep'', ''high'', ''legacy-os-detection'', reason)
      else legacy_scan ps guest_os)"

text \<open>Priority 3 (lines 106-139): the four reason fragments, appended in this order.\<close>

definition snapshot_fragment :: "(pyval \<Rightarrow> string) \<Rightarrow> pydict \<Rightarrow> string" where
  "snapshot_fragment rp vm =
     ''Complex snapshot state ('' @ py_str rp (dict_get vm ''snapshot_count'' PNone)
       @ '' snapshots) requires stateful rehost''"

definition nics_fragment :: "(pyval \<Rightarrow> string) \<Rightarrow> pydict \<Rightarrow> string" where
  "nics_fragment rp vm =
     ''Multi-NIC configuration ('' @ py_str rp (dict_get vm ''nics'' PNone)
       @ '' NICs) requires careful networking planning''"

definition tools_fragment :: "(pyval \<Rightarrow> string) \<Rightarrow> pydict \<Rightarrow> string" where
  "tools_fragment rp vm =
     ''VMware Tools '' @ py_str rp (dict_get vm ''tools_status'' (PStr ''unknown''))
       @ '' indicates operational complexity''"

definition disk_fragment :: "(pyval \<Rightarrow> string) \<Rightarrow> pydict \<Rightarrow> string" where
  "disk_fragment rp vm =
     ''Large disk footprint ('' @ py_str rp (dict_get vm ''disk_gb'' PNone)
       @ '' GB) suggests stateful workload''"

definition rehost_reasons :: "(pyval \<Rightarrow> string) \<Rightarrow> pydict \<Rightarrow> py_error + string list" where
  "rehost_reasons rp vm =
     (case py_gt (dict_get vm ''snapshot_count'' (PInt 0)) 5 of
        Inl e \<Rightarrow> Inl e
      | Inr snap \<Rightarrow>
     (case py_gt (dict_get vm ''nics'' (PInt 0)) 3 of
        Inl e \<Rightarrow> Inl e
      | Inr nic \<Rightarrow>
     (case py_gt (dict_get vm ''disk_gb'' (PInt 0)) 300 of
        Inl e \<Rightarrow> Inl e
      | Inr disk \<Rightarrow>
          Inr ((if snap then [snapshot_fragment rp vm] else [])
             @ (if nic then [nics_fragment rp vm] else [])
             @ (if dict_get vm ''tools_status'' PNone \<noteq> PStr ''running''
                then [tools_fragment rp vm] else [])
             @ (if disk then [disk_fragment rp vm] else [])))))"

definition rehost_tier :: "(pyval \<Rightarrow> string) \<Rightarrow> pydict \<Rightarrow> py_error + result option" where
  "rehost_tier rp vm =
     (case rehost_reasons rp vm of
        Inl e \<Rightarrow> Inl e
      | Inr rs \<Rightarrow>
          if rs \<noteq> []
          then Inr (Some (''rehost'', (if 1 < length rs then ''high'' else ''medium''),
                          ''workload-complexity'', join ''; '' rs))
          else Inr None)"

text \<open>
  Priority 4 (lines 141-165).  \<^verbatim>\<open>and\<close> evaluates its right operand only when the left
  one is true, and the four risk signals are evaluated only inside the \<^verbatim>\<open>if\<close>.
\<close>

definition is_linux :: "string \<Rightarrow> bool" where
  "is_linux guest_os =
     (sublist ''linux'' guest_os
      \<or> list_ex (\<lambda>x. sublist x guest_os) [''rhel'', ''centos'', ''ubuntu'', ''debian''])"

definition small_linux :: "string \<Rightarrow> pydict \<Rightarrow> py_error + bool" where
  "small_linux guest_os vm =
     (if is_linux guest_os
      then (case py_le (dict_get vm ''nics'' (PInt 1)) 1 of
              Inl e \<Rightarrow> Inl e
            | Inr one_nic \<Rightarrow>
                if one_nic then py_le (dict_get vm ''disk_gb'' (PInt 0)) 100 else Inr False)
      else Inr False)"

definition risk_signals :: "pydict \<Rightarrow> py_error + nat" where
  "risk_signals vm =
     (case py_gt (dict_get vm ''snapshot_count'' (PInt 0)) 0 of
        Inl e \<Rightarrow> Inl e
      | Inr snap \<Rightarrow>
     (case py_gt (dict_get vm ''avg_cpu_usage_pct'' (PInt 0)) 70 of
        Inl e \<Rightarrow> Inl e
      | Inr cpu \<Rightarrow>
     (case py_gt (dict_get vm ''avg_mem_usage_pct'' (PInt 0)) 70 of
        Inl e \<Rightarrow> Inl e
      | Inr mem \<Rightarrow>
     (case py_gt (dict_get vm ''uptime_days'' (PInt 0)) 365 of
        Inl e \<Rightarrow> Inl e
      | Inr up \<Rightarrow>
          Inr ((if snap then 1 else 0) + (if cpu then 1 else 0)
             + (if mem then 1 else 0) + (if up then 1 else 0))))))"

definition refactor_result :: result where
  "refactor_result =
     (''refactor_candidate'', ''medium'', ''conservative-refactor'',
      ''Linux; low risk profile; single NIC; small disk; eligible for containerization'')"

definition refactor_tier :: "string \<Rightarrow> pydict \<Rightarrow> py_error + result option" where
  "refactor_tier guest_os vm =
     (case small_linux guest_os vm of
        Inl e \<Rightarrow> Inl e
      | Inr eligible \<Rightarrow>
          if eligible
          then (case risk_signals vm of
                  Inl e \<Rightarrow> Inl e
                | Inr n \<Rightarrow> if n = 0 then Inr (Some refactor_result) else Inr None)
          else Inr None)"

text \<open>Priority 5 (line 168).\<close>

definition default_result :: result where
  "default_result =
     (''keep'', ''medium'', ''default-conservative'', ''Conservative default: keep on-premises'')"

text \<open>
  The cascade.  The first argument is \<^verbatim>\<open>self\<close>; the source never reads it.  The guest OS
  is lower-cased once, after the zombie tier, and used by tiers 2 and 4.
\<close>

definition classify :: "engine \<Rightarrow> (pyval \<Rightarrow> string) \<Rightarrow> pydict \<Rightarrow> py_error + result" where
  "classify self rp vm =
     (case zombie_tier vm of
        Inl e \<Rightarrow> Inl e
      | Inr (Some r) \<Rightarrow> Inr r
      | Inr None \<Rightarrow>
     (case guest_os_lower vm of
        Inl e \<Rightarrow> Inl e
      | Inr guest_os \<Rightarrow>
     (case legacy_scan legacy_patterns guest_os of
        Some r \<Rightarrow> Inr r
      | None \<Rightarrow>
     (case rehost_tier rp vm of
        Inl e \<Rightarrow> Inl e
      | Inr (Some r) \<Rightarrow> Inr r
      | Inr None \<Rightarrow>
     (case refactor_tier guest_os vm of
        Inl e \<Rightarrow> Inl e
      | Inr (Some r) \<Rightarrow> Inr r
      | Inr None \<Rightarrow> Inr default_result)))))"

subsection \<open>Loading and validating the rule catalog\<close>

text \<open>
  \<^verbatim>\<open>load_rules\<close> (\<^verbatim>\<open>rules.py\<close>) reads the file, parses it and checks that the parsed
  document is a list.  Reading and parsing are outside the model: \<open>data\<close> is the document
  the parser returned.
\<close>

definition load_rules :: "pyval \<Rightarrow> py_error + pyval list" where
  "load_rules data =
     (case data of
        PList rs \<Rightarrow> Inr rs
      | _ \<Rightarrow> Inl (ValueError ''Rules file must be a YAML/JSON list of rules''))"

text \<open>
  One pass of the loop of \<^verbatim>\<open>_validate_rules\<close>.  \<^verbatim>\<open>r.get\<close> needs a dict and
  \<^verbatim>\<open>.lower()\<close> a string; \<^verbatim>\<open>str(...)\<close> accepts every value.  Both \<^verbatim>\<open>cat\<close> and
  \<^verbatim>\<open>conf\<close> are computed before the first check.
\<close>

fun validate_rule :: "(pyval \<Rightarrow> string) \<Rightarrow> pyval \<Rightarrow> py_error + unit" where
  "validate_rule rp (PDict r) =
     (case call_lower (dict_get r ''category'' (PStr [])) of
        Inl e \<Rightarrow> Inl e
      | Inr cat \<Rightarrow>
          (let conf = lower (py_str rp (dict_get r ''confidence'' (PStr [])))
           in if cat \<notin> ALLOWED_CATEGORIES
              then Inl (RuleError (py_str rp (dict_get r ''name'' PNone)) ''category'' cat
                          ALLOWED_CATEGORIES)
              else if conf \<notin> ALLOWED_CONFIDENCES
              then Inl (RuleError (py_str rp (dict_get r ''name'' PNone)) ''confidence'' conf
                          ALLOWED_CONFIDENCES)
              else Inr ()))"
| "validate_rule rp v = Inl AttributeError"

fun validate_rules :: "(pyval \<Rightarrow> string) \<Rightarrow> pyval list \<Rightarrow> py_error + unit" where
  "validate_rules rp [] = Inr ()"
| "validate_rules rp (r # rs) =
     (case validate_rule rp r of Inl e \<Rightarrow> Inl e | Inr u \<Rightarrow> validate_rules rp rs)"

text \<open>\<^verbatim>\<open>RuleEngine.__init__\<close>.\<close>

definition RuleEngine :: "(pyval \<Rightarrow> string) \<Rightarrow> pyval \<Rightarrow> py_error + engine" where
  "RuleEngine rp data =
     (case load_rules data of
        Inl e \<Rightarrow> Inl e
      | Inr rs \<Rightarrow>
          (case validate_rules rp rs of
             Inl e \<Rightarrow> Inl e
           | Inr u \<Rightarrow> Inr \<lparr>rules = rs\<rparr>))"

subsection \<open>\<^verbatim>\<open>_eval_condition\<close>\<close>

text \<open>
  The generic evaluator converts both operands with \<^verbatim>\<open>float(...)\<close>, tests equality with
  \<^verbatim>\<open>==\<close> and membership with \<^verbatim>\<open>in\<close>.  What these built-ins return (the rounding of
  an int to a double, the float a string denotes, equality and membership of arbitrary
  objects) is not modelled; the record below holds them, and the results hold for every
  such record.  When each conversion raises is modelled.
\<close>

record builtins =
  float_of_int :: "int \<Rightarrow> pyfloat option"
  float_of_str :: "string \<Rightarrow> pyfloat option"
  repr_of :: "pyval \<Rightarrow> string"
  equals :: "pyval \<Rightarrow> pyval \<Rightarrow> bool"
  member :: "pyval \<Rightarrow> pyval \<Rightarrow> py_error + bool"

fun py_float :: "builtins \<Rightarrow> pyval \<Rightarrow> py_error + pyfloat" where
  "py_float B (PBool b) = Inr (Fin (if b then 1 else 0))"
| "py_float B (PInt i) =
     (case float_of_int B i of None \<Rightarrow> Inl OverflowError | Some f \<Rightarrow> Inr f)"
| "py_float B (PFloat f) = Inr f"
| "py_float B (PStr s) =
     (case float_of_str B s of
        None \<Rightarrow> Inl (ValueError ''could not convert string to float'')
      | Some f \<Rightarrow> Inr f)"
| "py_float B v = Inl TypeError"

fun float_less :: "pyfloat \<Rightarrow> pyfloat \<Rightarrow> bool" where
  "float_less NaN y = False"
| "float_less x NaN = False"
| "float_less PosInf y = False"
| "float_less x NegInf = False"
| "float_less NegInf y = True"
| "float_less x PosInf = True"
| "float_less (Fin a) (Fin b) = (a < b)"

fun float_less_eq :: "pyfloat \<Rightarrow> pyfloat \<Rightarrow> bool" where
  "float_less_eq NaN y = False"
| "float_less_eq x NaN = False"
| "float_less_eq x y = (x = y \<or> float_less x y)"

text \<open>
  One \<^verbatim>\<open>try\<close> block: \<^verbatim>\<open>float(vm_val) <op> float(val)\<close>, left operand first, and
  \<^verbatim>\<open>except Exception: return False\<close>.
\<close>

definition try_compare ::
  "builtins \<Rightarrow> (pyfloat \<Rightarrow> pyfloat \<Rightarrow> bool) \<Rightarrow> pyval \<Rightarrow> pyval \<Rightarrow> bool" where
  "try_compare B rel vm_val val =
     (case py_float B vm_val of
        Inl e \<Rightarrow> False
      | Inr x \<Rightarrow> (case py_float B val of Inl e \<Rightarrow> False | Inr y \<Rightarrow> rel x y))"

text \<open>
  \<^verbatim>\<open>vm.get(field)\<close> with an arbitrary key: a list or a dict cannot be hashed; any other
  key that is not a string is not in a record whose keys are strings.
\<close>

fun get_any :: "pydict \<Rightarrow> pyval \<Rightarrow> py_error + pyval" where
  "get_any vm (PStr k) = Inr (dict_get vm k PNone)"
| "get_any vm (PList xs) = Inl TypeError"
| "get_any vm (PDict kvs) = Inl TypeError"
| "get_any vm k = Inr PNone"

definition eval_condition :: "builtins \<Rightarrow> pydict \<Rightarrow> pydict \<Rightarrow> py_error + bool" where
  "eval_condition B vm cond =
     (let field = dict_get cond ''field'' PNone;
          op = dict_get cond ''op'' PNone;
          val = dict_get cond ''value'' PNone
      in case get_any vm field of
           Inl e \<Rightarrow> Inl e
         | Inr vm_val \<Rightarrow>
             if op = PStr ''contains''
             then (case call_lower (if py_truthy vm_val then vm_val else PStr []) of
                     Inl e \<Rightarrow> Inl e
                   | Inr s \<Rightarrow> Inr (sublist (lower (py_str (repr_of B) val)) s))
             else if op = PStr ''eq'' then Inr (equals B vm_val val)
             else if op = PStr ''neq'' then Inr (\<not> equals B vm_val val)
             else if op = PStr ''gt'' then Inr (try_compare B (\<lambda>x y. float_less y x) vm_val val)
             else if op = PStr ''gte''
             then Inr (try_compare B (\<lambda>x y. float_less_eq y x) vm_val val)
             else if op = PStr ''lt'' then Inr (try_compare B float_less vm_val val)
             else if op = PStr ''lte'' then Inr (try_compare B float_less_eq vm_val val)
             else if op = PStr ''in'' then member B vm_val val
             else if op = PStr ''not_in''
             then (case member B vm_val val of Inl e \<Rightarrow> Inl e | Inr b \<Rightarrow> Inr (\<not> b))
             else Inl (ValueError (''Unknown operator: '' @ py_str (repr_of B) op)))"

section \<open>The risk scoring engine (\<^verbatim>\<open>scoring.py\<close>)\<close>

definition legacy_tokens :: "string list" where
  "legacy_tokens = [''2008'', ''2003'', ''rhel 6'', ''centos 6'']"

text \<open>
  \<^verbatim>\<open>(cpu > 80) or (mem > 80)\<close>: the memory figure is compared only when the CPU test is
  false.
\<close>

definition high_avg_usage :: "pydict \<Rightarrow> py_error + bool" where
  "high_avg_usage vm =
     (case py_gt (dict_get vm ''avg_cpu_usage_pct'' (PInt 0)) 80 of
        Inl e \<Rightarrow> Inl e
      | Inr cpu \<Rightarrow>
          if cpu then Inr True else py_gt (dict_get vm ''avg_mem_usage_pct'' (PInt 0)) 80)"

text \<open>\<^verbatim>\<open>score += w; trace.append(entry)\<close> under its \<^verbatim>\<open>if\<close>.\<close>

definition add_signal :: "bool \<Rightarrow> int \<Rightarrow> string \<Rightarrow> int \<times> string list \<Rightarrow> int \<times> string list" where
  "add_signal fired w entry st = (if fired then (fst st + w, snd st @ [entry]) else st)"

text \<open>The two clamping statements of lines 49-52, in their order.\<close>

definition clamp_score :: "int \<Rightarrow> int" where
  "clamp_score s = (let s1 = (if 100 < s then 100 else s) in if s1 < 0 then 0 else s1)"

text \<open>
  The seven tests in source order.  An exception in a test leaves the function at once, so
  the accumulation can follow the tests.
\<close>

definition raw_score :: "pydict \<Rightarrow> py_error + int \<times> string list" where
  "raw_score vm =
     (case py_gt (dict_get vm ''snapshot_count'' (PInt 0)) 5 of
        Inl e \<Rightarrow> Inl e
      | Inr snap \<Rightarrow>
     (case py_gt (dict_get vm ''max_snapshot_age_days'' (PInt 0)) 30 of
        Inl e \<Rightarrow> Inl e
      | Inr age \<Rightarrow>
     (case guest_os_lower vm of
        Inl e \<Rightarrow> Inl e
      | Inr guest \<Rightarrow>
     (case py_gt (dict_get vm ''nics'' (PInt 0)) 3 of
        Inl e \<Rightarrow> Inl e
      | Inr nic \<Rightarrow>
     (case high_avg_usage vm of
        Inl e \<Rightarrow> Inl e
      | Inr usage \<Rightarrow>
     (case py_gt (dict_get vm ''uptime_days'' (PInt 0)) 365 of
        Inl e \<Rightarrow> Inl e
      | Inr up \<Rightarrow>
          (let st0 = (0, []);
               st1 = add_signal snap 20 ''snapshot_count>5:+20'' st0;
               st2 = add_signal age 15 ''max_snapshot_age_days>30:+15'' st1;
               st3 = add_signal (list_ex (\<lambda>tok. sublist tok guest) legacy_tokens) 25
                       ''guest_os_legacy:+25'' st2;
               st4 = add_signal (dict_get vm ''tools_status'' PNone \<noteq> PStr ''running'') 10
                       ''tools_status_not_running:+10'' st3;
               st5 = add_signal nic 10 ''nics>3:+10'' st4;
               st6 = add_signal usage 15 ''high_avg_usage:+15'' st5;
               st7 = add_signal up 10 ''uptime_days>365:+10'' st6
           in Inr st7)))))))"

definition score_vm :: "pydict \<Rightarrow> py_error + int \<times> string list" where
  "score_vm vm =
     (case raw_score vm of
        Inl e \<Rightarrow> Inl e
      | Inr (score, trace) \<Rightarrow> Inr (clamp_score score, trace))"

definition risk_level :: "int \<Rightarrow> string" where
  "risk_level score =
     (if score \<le> 29 then ''Low'' else if score \<le> 69 then ''Medium'' else ''High'')"

section \<open>Records, descriptors and examples the properties speak about\<close>

text \<open>
  \<^verbatim>\<open>models.py\<close> declares the numeric fields as \<^verbatim>\<open>int\<close> or \<^verbatim>\<open>float\<close>, the guest OS as a
  string and the tags as a list of strings.  A record is well formed when each of these
  fields is absent or holds a value of its declared kind (\<^verbatim>\<open>bool\<close> is a Python number;
  the guest OS may also be \<^verbatim>\<open>None\<close>, which the engines replace by the empty string).
  Power state and tooling status are only tested for equality and may hold anything.
\<close>

definition is_number :: "pyval \<Rightarrow> bool" where
  "is_number v = (case v of PBool b \<Rightarrow> True | PInt i \<Rightarrow> True | PFloat f \<Rightarrow> True | _ \<Rightarrow> False)"

definition is_string :: "pyval \<Rightarrow> bool" where
  "is_string v = (case v of PStr s \<Rightarrow> True | _ \<Rightarrow> False)"

definition numeric_fields :: "string list" where
  "numeric_fields =
     [''snapshot_count'', ''nics'', ''disk_gb'', ''max_snapshot_age_days'',
      ''avg_cpu_usage_pct'', ''avg_mem_usage_pct'', ''uptime_days'']"

definition well_formed :: "pydict \<Rightarrow> bool" where
  "well_formed vm =
     (list_all (\<lambda>k. case map_of vm k of None \<Rightarrow> True | Some v \<Rightarrow> is_number v) numeric_fields
      \<and> (case map_of vm ''guest_os'' of
            None \<Rightarrow> True | Some v \<Rightarrow> v = PNone \<or> is_string v)
      \<and> (case map_of vm ''tags'' of
            None \<Rightarrow> True | Some v \<Rightarrow> (case v of PList ts \<Rightarrow> list_all is_string ts | _ \<Rightarrow> False)))"

text \<open>
  The tag of the zombie tier.  \<open>days_tag_over_60\<close> reads the words of the specification:
  a tag of the form \<^verbatim>\<open>powered_off_days=<integer>\<close> whose integer exceeds 60, anywhere in
  the list.  \<open>first_tag_days\<close> is the integer of the first tag, in list order, that
  starts with \<^verbatim>\<open>powered_off_days=\<close>, if that tag has one.
\<close>

definition days_tag_over_60 :: "string \<Rightarrow> bool" where
  "days_tag_over_60 t =
     (prefix ''powered_off_days='' t
      \<and> (case py_int (drop 17 t) of None \<Rightarrow> False | Some n \<Rightarrow> 60 < n))"

definition first_tag_days :: "string list \<Rightarrow> int option" where
  "first_tag_days ts =
     (case find (prefix ''powered_off_days='') ts of
        None \<Rightarrow> None
      | Some t \<Rightarrow> py_int (drop 17 t))"

text \<open>
  A rule descriptor as the catalog format types it: a record whose category, when
  present, is a string.  It is offending when its lower-cased category is outside the
  category vocabulary or its confidence, printed and lower-cased, is outside the
  confidence vocabulary; the error names the category first.
\<close>

definition descriptor :: "pyval \<Rightarrow> bool" where
  "descriptor r =
     (case r of PDict d \<Rightarrow> is_string (dict_get d ''category'' (PStr [])) | _ \<Rightarrow> False)"

definition rule_field :: "pyval \<Rightarrow> string \<Rightarrow> pyval \<Rightarrow> pyval" where
  "rule_field r k dflt = (case r of PDict d \<Rightarrow> dict_get d k dflt | _ \<Rightarrow> dflt)"

definition category_of :: "pyval \<Rightarrow> string" where
  "category_of r = (case rule_field r ''category'' (PStr []) of PStr c \<Rightarrow> lower c | _ \<Rightarrow> [])"

definition confidence_of :: "(pyval \<Rightarrow> string) \<Rightarrow> pyval \<Rightarrow> string" where
  "confidence_of rp r = lower (py_str rp (rule_field r ''confidence'' (PStr [])))"

definition offending :: "(pyval \<Rightarrow> string) \<Rightarrow> pyval \<Rightarrow> bool" where
  "offending rp r =
     (category_of r \<notin> ALLOWED_CATEGORIES \<or> confidence_of rp r \<notin> ALLOWED_CONFIDENCES)"

definition rule_error :: "(pyval \<Rightarrow> string) \<Rightarrow> pyval \<Rightarrow> py_error" where
  "rule_error rp r =
     (if category_of r \<notin> ALLOWED_CATEGORIES
      then RuleError (py_str rp (rule_field r ''name'' PNone)) ''category'' (category_of r)
             ALLOWED_CATEGORIES
      else RuleError (py_str rp (rule_field r ''name'' PNone)) ''confidence''
             (confidence_of rp r) ALLOWED_CONFIDENCES)"

text \<open>The number of conditions that hold, for the fragment count and the risk tally.\<close>

definition count_true :: "bool list \<Rightarrow> nat" where
  "count_true bs = length (filter (\<lambda>b. b) bs)"

text \<open>The weight a scoring signal contributes.\<close>

definition weight :: "int \<Rightarrow> bool \<Rightarrow> int" where
  "weight w fired = (if fired then w else 0)"

text \<open>
  Concrete inputs.  No value in them is a float, a list or a dict in a printed position,
  so any printer serves; \<open>no_printer\<close> prints nothing.  The records follow the scenarios
  of \<^verbatim>\<open>test_phase1_contract.py\<close>.
\<close>

definition no_printer :: "pyval \<Rightarrow> string" where
  "no_printer v = []"

definition an_engine :: engine where
  "an_engine = \<lparr>rules = []\<rparr>"

definition zombie_vm :: pydict where
  "zombie_vm =
     [(''vm_id'', PStr ''test-zombie-001''), (''name'', PStr ''zombie-test''),
      (''power_state'', PStr ''poweredOff''), (''cpu'', PInt 2), (''memory_mb'', PInt 4096),
      (''disk_gb'', PInt 100), (''guest_os'', PStr ''Ubuntu 18.04''),
      (''tools_status'', PStr ''unknown''), (''nics'', PInt 1), (''snapshot_count'', PInt 0),
      (''max_snapshot_age_days'', PInt 0), (''avg_cpu_usage_pct'', PInt 0),
      (''avg_mem_usage_pct'', PInt 0), (''uptime_days'', PInt 0),
      (''tags'', PList [PStr ''powered_off_days=120''])]"

definition two_tags_vm :: pydict where
  "two_tags_vm =
     [(''power_state'', PStr ''poweredOff''), (''guest_os'', PStr ''Windows Server 2019''),
      (''tools_status'', PStr ''running''),
      (''tags'', PList [PStr ''powered_off_days=10'', PStr ''powered_off_days=120''])]"

definition bad_first_tag_vm :: pydict where
  "bad_first_tag_vm =
     [(''power_state'', PStr ''poweredOff''), (''guest_os'', PStr ''Windows Server 2019''),
      (''tools_status'', PStr ''running''),
      (''tags'', PList [PStr ''powered_off_days=bad'', PStr ''powered_off_days=120''])]"

definition malformed_vm :: pydict where
  "malformed_vm =
     [(''power_state'', PStr ''poweredOn''), (''guest_os'', PStr ''Windows Server 2019''),
      (''tools_status'', PStr ''running''), (''snapshot_count'', PStr ''many'')]"

definition complex_vm :: pydict where
  "complex_vm =
     [(''power_state'', PStr ''poweredOn''), (''guest_os'', PStr ''Windows Server 2019''),
      (''tools_status'', PStr ''running''), (''snapshot_count'', PInt 8), (''nics'', PInt 4),
      (''disk_gb'', PInt 100), (''tags'', PList [])]"

definition refactor_vm :: pydict where
  "refactor_vm =
     [(''power_state'', PStr ''poweredOn''), (''guest_os'', PStr ''Ubuntu 20.04''),
      (''tools_status'', PStr ''running''), (''nics'', PInt 1), (''disk_gb'', PInt 50),
      (''snapshot_count'', PInt 0), (''avg_cpu_usage_pct'', PInt 10),
      (''avg_mem_usage_pct'', PInt 10), (''uptime_days'', PInt 1), (''tags'', PList [])]"

definition fedora_vm :: pydict where
  "fedora_vm =
     [(''power_state'', PStr ''poweredOn''), (''guest_os'', PStr ''Fedora 34''),
      (''tools_status'', PStr ''running''), (''nics'', PInt 1), (''disk_gb'', PInt 80),
      (''snapshot_count'', PInt 1), (''tags'', PList [])]"

definition legacy_vm :: pydict where
  "legacy_vm =
     [(''power_state'', PStr ''poweredOn''), (''guest_os'', PStr ''Windows Server 2008 R2''),
      (''tools_status'', PStr ''running''), (''nics'', PInt 1), (''disk_gb'', PInt 100),
      (''snapshot_count'', PInt 0), (''tags'', PList [PStr ''app:web''])]"

definition many_nics_vm :: pydict where
  "many_nics_vm =
     [(''power_state'', PStr ''poweredOn''), (''guest_os'', PStr ''Windows Server 2019''),
      (''tools_status'', PStr ''running''), (''nics'', PInt 4), (''disk_gb'', PInt 100),
      (''snapshot_count'', PInt 0), (''tags'', PList [])]"

definition all_signals_vm :: pydict where
  "all_signals_vm =
     [(''snapshot_count'', PInt 8), (''max_snapshot_age_days'', PInt 40),
      (''guest_os'', PStr ''RHEL 6''), (''tools_status'', PStr ''notRunning''),
      (''nics'', PInt 5), (''avg_cpu_usage_pct'', PInt 90), (''uptime_days'', PInt 400)]"

text \<open>
  A record that holds none of the numeric fields, two rule catalogs, a condition of the
  generic evaluator, and a stand-in for the built-ins that is right on these inputs: it
  converts an int to the float of the same value and takes no string for a number.
\<close>

definition bare_vm :: pydict where
  "bare_vm = [(''guest_os'', PStr ''Ubuntu 20.04''), (''tools_status'', PStr ''running'')]"

definition good_catalog :: "pyval list" where
  "good_catalog =
     [PDict [(''name'', PStr ''zombie''), (''category'', PStr ''Retire''),
             (''confidence'', PStr ''HIGH'')],
      PDict [(''name'', PStr ''fallback''), (''category'', PStr ''keep''),
             (''confidence'', PStr ''medium'')]]"

definition bad_catalog :: "pyval list" where
  "bad_catalog =
     [PDict [(''name'', PStr ''zombie''), (''category'', PStr ''Retire''),
             (''confidence'', PStr ''HIGH'')],
      PDict [(''name'', PStr ''numeric''), (''category'', PStr ''keep''),
             (''confidence'', PInt 90)],
      PDict [(''name'', PStr ''modern''), (''category'', PStr ''replatform''),
             (''confidence'', PStr ''low'')]]"

definition null_category_catalog :: "pyval list" where
  "null_category_catalog =
     [PDict [(''name'', PStr ''a''), (''category'', PNone), (''confidence'', PStr ''low'')]]"

definition null_confidence_catalog :: "pyval list" where
  "null_confidence_catalog =
     [PDict [(''name'', PStr ''a''), (''category'', PStr ''keep''), (''confidence'', PNone)]]"

definition snapshot_cond :: pydict where
  "snapshot_cond = [(''field'', PStr ''snapshot_count''), (''op'', PStr ''gt''), (''value'', PInt 5)]"

definition example_builtins :: builtins where
  "example_builtins =
     \<lparr>float_of_int = (\<lambda>i. Some (Fin (of_int i))),
      float_of_str = (\<lambda>s. None),
      repr_of = no_printer,
      equals = (\<lambda>x y. x = y),
      member = (\<lambda>x y. Inl TypeError)\<rparr>"

section \<open>Evaluation rules and basic facts\<close>

lemmas string_eval =
  lower_def lower_char_def sublist_code str_int_def str_nat.simps digit_char_def
  py_int_def int_digits_def int_max_str_digits_def strip_def is_space_def is_digit_def
  digits_value_def split_eq1_def index_def ascii_def

lemmas classify_eval =
  classify_def zombie_tier_def zombie_reason_def extract_powered_off_days_def tag_days_def
  guest_os_lower_def legacy_patterns_def rehost_tier_def rehost_reasons_def
  snapshot_fragment_def nics_fragment_def tools_fragment_def disk_fragment_def
  is_linux_def small_linux_def risk_signals_def refactor_tier_def refactor_result_def
  default_result_def dict_get_def

lemmas score_eval =
  score_vm_def raw_score_def high_avg_usage_def add_signal_def clamp_score_def
  legacy_tokens_def guest_os_lower_def dict_get_def

section \<open>Risk levels\<close>

text \<open>
  C5.  \<^verbatim>\<open>risk_level\<close> sends every score up to 29 to Low, every score from 30 to 69 to
  Medium and every score from 70 on to High; in particular the scores 0 to 29, 30 to 69
  and 70 to 100, with 29 Low, 69 Medium and 70 High.
\<close>

theorem risk_level_thresholds:
  "risk_level s = (if s \<le> 29 then ''Low'' else if s \<le> 69 then ''Medium'' else ''High'')
   \<and> (\<forall>n \<in> {0..29}. risk_level n = ''Low'')
   \<and> (\<forall>n \<in> {30..69}. risk_level n = ''Medium'')
   \<and> (\<forall>n \<in> {70..100}. risk_level n = ''High'')
   \<and> risk_level 29 = ''Low'' \<and> risk_level 69 = ''Medium'' \<and> risk_level 70 = ''High''"
  by (simp add: risk_level_def)

theorem risk_level_thresholds_witness:
  "(0::int) \<in> {0..29} \<and> risk_level 0 = ''Low''
   \<and> (30::int) \<in> {30..69} \<and> risk_level 30 = ''Medium''
   \<and> (100::int) \<in> {70..100} \<and> risk_level 100 = ''High''"
  using risk_level_thresholds [of 0] by simp

section \<open>Facts about the helpers\<close>

lemma py_gt_number: "is_number v \<Longrightarrow> \<exists>b. py_gt v n = Inr b"
  by (cases v) (simp_all add: is_number_def)

lemma py_le_number: "is_number v \<Longrightarrow> \<exists>b. py_le v n = Inr b"
  by (cases v) (simp_all add: is_number_def)

lemma py_gt_Inr_number: "py_gt v n = Inr b \<Longrightarrow> is_number v"
  by (cases v) (simp_all add: is_number_def)

lemma py_gt_not_number: "\<not> is_number v \<Longrightarrow> py_gt v n = Inl TypeError"
  by (cases v) (simp_all add: is_number_def)

lemma tag_days_prefix:
  assumes "prefix ''powered_off_days='' t"
  shows "tag_days t =
           (case py_int (drop 17 t) of
              None \<Rightarrow> Inl (ValueError ''invalid literal for int() with base 10'')
            | Some n \<Rightarrow> Inr n)"
proof -
  from assms obtain rest where t: "t = ''powered_off_days='' @ rest"
    by (auto simp: prefix_def)
  have "index (split_eq1 t) 1 = Inr rest"
    by (simp add: t split_eq1_def index_def)
  moreover have "drop 17 t = rest"
    by (simp add: t)
  ultimately show ?thesis
    by (simp add: tag_days_def)
qed

lemma scan_tags_strings:
  "scan_tags (map PStr ts) = Inr (case first_tag_days ts of None \<Rightarrow> 0 | Some n \<Rightarrow> n)"
proof (induction ts)
  case Nil
  show ?case by (simp add: first_tag_days_def)
next
  case (Cons t ts)
  show ?case
  proof (cases "prefix ''powered_off_days='' t")
    case True
    then show ?thesis
      by (simp add: tag_days_prefix first_tag_days_def split: option.splits)
  next
    case False
    with Cons show ?thesis
      by (simp add: first_tag_days_def)
  qed
qed

lemma scan_tags_commits:
  "prefix ''powered_off_days='' t \<Longrightarrow>
     scan_tags (map PStr pre @ PStr t # rest) = scan_tags (map PStr pre @ [PStr t])"
  by (induction pre) simp_all

lemma classify_cases:
  assumes "classify self rp vm = Inr r"
  shows "zombie_tier vm = Inr (Some r)
       \<or> (zombie_tier vm = Inr None
          \<and> (\<exists>g. guest_os_lower vm = Inr g
               \<and> (legacy_scan legacy_patterns g = Some r
                  \<or> (legacy_scan legacy_patterns g = None
                     \<and> (rehost_tier rp vm = Inr (Some r)
                        \<or> (rehost_tier rp vm = Inr None
                           \<and> (refactor_tier g vm = Inr (Some r)
                              \<or> (refactor_tier g vm = Inr None \<and> r = default_result))))))))"
  using assms by (auto simp: classify_def split: sum.splits option.splits)

lemma zombie_tier_Some:
  "zombie_tier vm = Inr (Some r) \<longleftrightarrow>
     (dict_get vm ''power_state'' PNone = PStr ''poweredOff''
      \<and> (\<exists>d. extract_powered_off_days (dict_get vm ''tags'' (PList [])) = Inr d \<and> 60 < d
            \<and> r = (''retire'', ''high'', ''zombie-detection'', zombie_reason d)))"
  by (auto simp: zombie_tier_def split: sum.splits if_splits)

lemma legacy_scan_Some:
  "legacy_scan ps g = Some r \<Longrightarrow> \<exists>reason. r = (''keep'', ''high'', ''legacy-os-detection'', reason)"
  by (induction ps g rule: legacy_scan.induct) (auto split: if_splits)

lemma rehost_tier_Some:
  "rehost_tier rp vm = Inr (Some r) \<Longrightarrow>
     \<exists>k s. r = (''rehost'', k, ''workload-complexity'', s) \<and> (k = ''medium'' \<or> k = ''high'')"
  by (auto simp: rehost_tier_def split: sum.splits if_splits)

lemma refactor_tier_Some: "refactor_tier g vm = Inr (Some r) \<Longrightarrow> r = refactor_result"
  by (auto simp: refactor_tier_def split: sum.splits if_splits)

subsection \<open>Well-formed records are classified\<close>

lemma scan_tags_first:
  assumes "\<forall>p \<in> set pre. \<not> prefix ''powered_off_days='' p" and "prefix ''powered_off_days='' t"
  shows "scan_tags (map PStr pre @ PStr t # rest) =
           Inr (case py_int (drop 17 t) of None \<Rightarrow> 0 | Some n \<Rightarrow> n)"
  using assms by (induction pre) (simp_all add: tag_days_prefix split: option.splits)

lemma strings_map_PStr: "list_all is_string vs \<Longrightarrow> \<exists>ts. vs = map PStr ts"
proof (induction vs)
  case Nil
  show ?case by simp
next
  case (Cons v vs)
  then obtain ts where "vs = map PStr ts" by auto
  moreover from Cons.prems obtain t where "v = PStr t"
    by (cases v) (simp_all add: is_string_def)
  ultimately have "v # vs = map PStr (t # ts)" by simp
  then show ?case by (rule exI)
qed

lemma wf_number:
  "well_formed vm \<Longrightarrow> k \<in> set numeric_fields \<Longrightarrow> is_number (dict_get vm k (PInt d))"
  by (auto simp: well_formed_def list_all_iff dict_get_def is_number_def split: option.splits)

lemma wf_gt:
  "well_formed vm \<Longrightarrow> k \<in> set numeric_fields \<Longrightarrow> \<exists>b. py_gt (dict_get vm k (PInt d)) n = Inr b"
  by (rule py_gt_number) (rule wf_number)

lemma wf_le:
  "well_formed vm \<Longrightarrow> k \<in> set numeric_fields \<Longrightarrow> \<exists>b. py_le (dict_get vm k (PInt d)) n = Inr b"
  by (rule py_le_number) (rule wf_number)

lemma wf_guest: "well_formed vm \<Longrightarrow> \<exists>g. guest_os_lower vm = Inr g"
  by (auto simp: well_formed_def guest_os_lower_def dict_get_def is_string_def Let_def
           split: option.splits pyval.splits)

lemma wf_tags:
  assumes "well_formed vm"
  shows "\<exists>d. extract_powered_off_days (dict_get vm ''tags'' (PList [])) = Inr d"
proof (cases "map_of vm ''tags''")
  case None
  then show ?thesis by (simp add: dict_get_def extract_powered_off_days_def)
next
  case (Some v)
  with assms obtain vs where v: "v = PList vs" and "list_all is_string vs"
    by (auto simp: well_formed_def split: pyval.splits)
  then obtain ts where "vs = map PStr ts" using strings_map_PStr by blast
  with Some v show ?thesis
    by (simp add: dict_get_def extract_powered_off_days_def scan_tags_strings)
qed

lemma wf_zombie: "well_formed vm \<Longrightarrow> \<exists>z. zombie_tier vm = Inr z"
  using wf_tags [of vm] by (auto simp: zombie_tier_def)

lemma wf_rehost:
  assumes "well_formed vm"
  shows "\<exists>z. rehost_tier rp vm = Inr z"
proof -
  obtain a where a: "py_gt (dict_get vm ''snapshot_count'' (PInt 0)) 5 = Inr a"
    using wf_gt [OF assms, of "''snapshot_count''"] by (auto simp: numeric_fields_def)
  obtain b where b: "py_gt (dict_get vm ''nics'' (PInt 0)) 3 = Inr b"
    using wf_gt [OF assms, of "''nics''"] by (auto simp: numeric_fields_def)
  obtain c where c: "py_gt (dict_get vm ''disk_gb'' (PInt 0)) 300 = Inr c"
    using wf_gt [OF assms, of "''disk_gb''"] by (auto simp: numeric_fields_def)
  show ?thesis
    by (simp add: rehost_tier_def rehost_reasons_def a b c)
qed

lemma wf_risk_signals:
  assumes "well_formed vm"
  shows "\<exists>n. risk_signals vm = Inr n"
proof -
  obtain a where a: "py_gt (dict_get vm ''snapshot_count'' (PInt 0)) 0 = Inr a"
    using wf_gt [OF assms, of "''snapshot_count''"] by (auto simp: numeric_fields_def)
  obtain b where b: "py_gt (dict_get vm ''avg_cpu_usage_pct'' (PInt 0)) 70 = Inr b"
    using wf_gt [OF assms, of "''avg_cpu_usage_pct''"] by (auto simp: numeric_fields_def)
  obtain c where c: "py_gt (dict_get vm ''avg_mem_usage_pct'' (PInt 0)) 70 = Inr c"
    using wf_gt [OF assms, of "''avg_mem_usage_pct''"] by (auto simp: numeric_fields_def)
  obtain d where d: "py_gt (dict_get vm ''uptime_days'' (PInt 0)) 365 = Inr d"
    using wf_gt [OF assms, of "''uptime_days''"] by (auto simp: numeric_fields_def)
  show ?thesis
    by (simp add: risk_signals_def a b c d)
qed

lemma wf_refactor:
  assumes "well_formed vm"
  shows "\<exists>z. refactor_tier g vm = Inr z"
proof -
  obtain a where a: "py_le (dict_get vm ''nics'' (PInt 1)) 1 = Inr a"
    using wf_le [OF assms, of "''nics''"] by (auto simp: numeric_fields_def)
  obtain b where b: "py_le (dict_get vm ''disk_gb'' (PInt 0)) 100 = Inr b"
    using wf_le [OF assms, of "''disk_gb''"] by (auto simp: numeric_fields_def)
  obtain n where n: "risk_signals vm = Inr n"
    using wf_risk_signals [OF assms] by blast
  show ?thesis
    by (simp add: refactor_tier_def small_linux_def a b n)
qed

lemma classify_total:
  assumes "well_formed vm"
  shows "\<exists>r. classify self rp vm = Inr r"
proof -
  obtain z where z: "zombie_tier vm = Inr z" using wf_zombie [OF assms] by blast
  obtain g where g: "guest_os_lower vm = Inr g" using wf_guest [OF assms] by blast
  obtain h where h: "rehost_tier rp vm = Inr h" using wf_rehost [OF assms] by blast
  obtain f where f: "refactor_tier g vm = Inr f" using wf_refactor [OF assms] by blast
  show ?thesis
    by (auto simp: classify_def default_result_def z g h f split: option.splits)
qed

section \<open>The zombie tier\<close>

text \<open>
  C1, as amended.  For a record whose tags are a list of strings, \<^verbatim>\<open>classify\<close> returns
  \<^verbatim>\<open>(retire, high, zombie-detection, reason)\<close> if and only if the power state is
  \<^verbatim>\<open>poweredOff\<close> and the first tag, in list order, that starts with
  \<^verbatim>\<open>powered_off_days=\<close> has after the \<^verbatim>\<open>=\<close> an integer that \<^verbatim>\<open>int\<close> reads (so of at most
  4300 digits) and that exceeds 60; the reason then holds that day count.  That first tag
  is taken to be ASCII text, where \<open>py_int\<close> is \<^verbatim>\<open>int\<close>; the other tags are arbitrary.
  No other field is consulted: nothing is assumed about them, so a powered-on record
  never matches and a matching record is retired whatever its guest OS or workload
  figures.
\<close>

theorem zombie_iff_first_tag:
  assumes tags: "dict_get vm ''tags'' (PList []) = PList (map PStr ts)"
    and first_ascii: "\<forall>t. find (prefix ''powered_off_days='') ts = Some t \<longrightarrow> ascii t"
  shows "classify self rp vm = Inr (''retire'', ''high'', ''zombie-detection'', reason) \<longleftrightarrow>
           (dict_get vm ''power_state'' PNone = PStr ''poweredOff''
            \<and> (\<exists>d. first_tag_days ts = Some d \<and> 60 < d
                  \<and> reason = ''Powered off for '' @ str_int d @ '' days; requires decommission''))"
proof -
  have ex: "extract_powered_off_days (dict_get vm ''tags'' (PList [])) =
              Inr (case first_tag_days ts of None \<Rightarrow> 0 | Some n \<Rightarrow> n)"
    by (simp add: tags extract_powered_off_days_def scan_tags_strings)
  have z: "zombie_tier vm = Inr (Some (''retire'', ''high'', ''zombie-detection'', reason)) \<longleftrightarrow>
           (dict_get vm ''power_state'' PNone = PStr ''poweredOff''
            \<and> (\<exists>d. first_tag_days ts = Some d \<and> 60 < d \<and> reason = zombie_reason d))"
    by (auto simp: zombie_tier_Some ex split: option.splits)
  have "classify self rp vm = Inr (''retire'', ''high'', ''zombie-detection'', reason) \<longleftrightarrow>
          zombie_tier vm = Inr (Some (''retire'', ''high'', ''zombie-detection'', reason))"
  proof
    assume "classify self rp vm = Inr (''retire'', ''high'', ''zombie-detection'', reason)"
    from classify_cases [OF this] show
      "zombie_tier vm = Inr (Some (''retire'', ''high'', ''zombie-detection'', reason))"
      by (auto simp: default_result_def dest: legacy_scan_Some rehost_tier_Some
            refactor_tier_Some [unfolded refactor_result_def])
  next
    assume "zombie_tier vm = Inr (Some (''retire'', ''high'', ''zombie-detection'', reason))"
    then show "classify self rp vm = Inr (''retire'', ''high'', ''zombie-detection'', reason)"
      by (simp add: classify_def)
  qed
  with z show ?thesis by (simp add: zombie_reason_def)
qed

theorem zombie_iff_first_tag_witness:
  "dict_get zombie_vm ''tags'' (PList []) = PList (map PStr [''powered_off_days=120''])
   \<and> find (prefix ''powered_off_days='') [''powered_off_days=120''] = Some ''powered_off_days=120''
   \<and> ascii ''powered_off_days=120''
   \<and> dict_get zombie_vm ''power_state'' PNone = PStr ''poweredOff''
   \<and> first_tag_days [''powered_off_days=120''] = Some 120
   \<and> classify an_engine no_printer zombie_vm =
       Inr (''retire'', ''high'', ''zombie-detection'',
            ''Powered off for 120 days; requires decommission'')"
proof -
  have tags: "dict_get zombie_vm ''tags'' (PList []) = PList (map PStr [''powered_off_days=120''])"
    by (simp add: zombie_vm_def dict_get_def)
  have power: "dict_get zombie_vm ''power_state'' PNone = PStr ''poweredOff''"
    by (simp add: zombie_vm_def dict_get_def)
  have first: "find (prefix ''powered_off_days='') [''powered_off_days=120'']
                 = Some ''powered_off_days=120''"
    by simp
  have asc: "ascii ''powered_off_days=120''"
    by (simp add: ascii_def)
  have hyp: "\<forall>t. find (prefix ''powered_off_days='') [''powered_off_days=120''] = Some t
               \<longrightarrow> ascii t"
    using asc by simp
  have days: "first_tag_days [''powered_off_days=120''] = Some 120"
    by (simp add: first_tag_days_def string_eval)
  have msg: "''Powered off for '' @ str_int 120 @ '' days; requires decommission''
                = ''Powered off for 120 days; requires decommission''"
    by (simp add: string_eval)
  from zombie_iff_first_tag [OF tags hyp, of an_engine no_printer
       "''Powered off for 120 days; requires decommission''"] power days msg
  have "classify an_engine no_printer zombie_vm =
       Inr (''retire'', ''high'', ''zombie-detection'',
            ''Powered off for 120 days; requires decommission'')"
    by simp
  with tags first asc power days show ?thesis by blast
qed

text \<open>
  C1 as stated fails: a powered-off record that holds a tag of the stated form with value
  120, after an earlier such tag with value 10, is not retired.
\<close>

theorem later_tag_over_60_counterexample:
  "dict_get two_tags_vm ''power_state'' PNone = PStr ''poweredOff''
   \<and> dict_get two_tags_vm ''tags'' (PList []) =
       PList [PStr ''powered_off_days=10'', PStr ''powered_off_days=120'']
   \<and> days_tag_over_60 ''powered_off_days=120''
   \<and> classify an_engine no_printer two_tags_vm =
       Inr (''keep'', ''medium'', ''default-conservative'',
            ''Conservative default: keep on-premises'')"
  by (simp add: two_tags_vm_def days_tag_over_60_def classify_eval string_eval)

section \<open>Case analysis of a classification\<close>

lemma classify_result_cases:
  assumes "classify self rp vm = Inr (c, k, rule, reason)"
  obtains (zombie) "c = ''retire''" "k = ''high''" "rule = ''zombie-detection''"
      "dict_get vm ''power_state'' PNone = PStr ''poweredOff''"
  | (legacy) "c = ''keep''" "k = ''high''" "rule = ''legacy-os-detection''"
  | (rehost_medium) "c = ''rehost''" "k = ''medium''" "rule = ''workload-complexity''"
  | (rehost_high) "c = ''rehost''" "k = ''high''" "rule = ''workload-complexity''"
  | (refactor) "c = ''refactor_candidate''" "k = ''medium''" "rule = ''conservative-refactor''"
  | (default) "c = ''keep''" "k = ''medium''" "rule = ''default-conservative''"
proof -
  let ?r = "(c, k, rule, reason)"
  from classify_cases [OF assms] consider
      (z) "zombie_tier vm = Inr (Some ?r)"
    | (l) g where "legacy_scan legacy_patterns g = Some ?r"
    | (h) "rehost_tier rp vm = Inr (Some ?r)"
    | (f) g where "refactor_tier g vm = Inr (Some ?r)"
    | (d) "?r = default_result"
    by blast
  then show thesis
  proof cases
    case z
    then have "c = ''retire''" "k = ''high''" "rule = ''zombie-detection''"
      "dict_get vm ''power_state'' PNone = PStr ''poweredOff''"
      by (auto simp: zombie_tier_Some)
    then show thesis by (rule zombie)
  next
    case l
    from legacy_scan_Some [OF l]
    have "c = ''keep''" "k = ''high''" "rule = ''legacy-os-detection''" by simp_all
    then show thesis by (rule legacy)
  next
    case h
    from rehost_tier_Some [OF h]
    have "c = ''rehost''" "rule = ''workload-complexity''" "k = ''medium'' \<or> k = ''high''"
      by simp_all
    then show thesis using rehost_medium rehost_high by blast
  next
    case f
    from refactor_tier_Some [OF f]
    have "c = ''refactor_candidate''" "k = ''medium''" "rule = ''conservative-refactor''"
      by (simp_all add: refactor_result_def)
    then show thesis by (rule refactor)
  next
    case d
    then have "c = ''keep''" "k = ''medium''" "rule = ''default-conservative''"
      by (simp_all add: default_result_def)
    then show thesis by (rule default)
  qed
qed

lemma classify_shape:
  assumes "classify self rp vm = Inr (c, k, rule, reason)"
  shows "(c, k, rule) \<in>
          {(''retire'', ''high'', ''zombie-detection''),
           (''keep'', ''high'', ''legacy-os-detection''),
           (''rehost'', ''medium'', ''workload-complexity''),
           (''rehost'', ''high'', ''workload-complexity''),
           (''refactor_candidate'', ''medium'', ''conservative-refactor''),
           (''keep'', ''medium'', ''default-conservative'')}
        \<and> k \<noteq> ''low''
        \<and> (c = ''retire'' \<longrightarrow>
             rule = ''zombie-detection''
             \<and> dict_get vm ''power_state'' PNone = PStr ''poweredOff'')
        \<and> (c = ''rehost'' \<longrightarrow> k = ''medium'' \<or> k = ''high'')"
  using assms by (cases rule: classify_result_cases) simp_all

subsection \<open>The digit limit of \<^verbatim>\<open>int\<close>\<close>

lemma space_not_digit: "is_space c \<Longrightarrow> \<not> is_digit c"
  by (auto simp: is_space_def is_digit_def Let_def)

lemma filter_digit_dropWhile: "filter is_digit (dropWhile is_space s) = filter is_digit s"
  by (induction s) (simp_all add: space_not_digit)

lemma filter_digit_strip: "filter is_digit (strip s) = filter is_digit s"
proof -
  have "filter is_digit (strip s) = rev (filter is_digit (dropWhile is_space (rev (dropWhile is_space s))))"
    by (simp add: strip_def rev_filter)
  also have "\<dots> = rev (filter is_digit (rev (dropWhile is_space s)))"
    by (simp only: filter_digit_dropWhile)
  also have "\<dots> = filter is_digit (dropWhile is_space s)"
    by (simp add: rev_filter)
  finally show ?thesis
    by (simp only: filter_digit_dropWhile)
qed

lemma int_digits_limit:
  "int_max_str_digits < length (filter is_digit ds) \<Longrightarrow> int_digits ds = None"
  by (simp add: int_digits_def)

lemma py_int_digit_limit:
  assumes "int_max_str_digits < length (filter is_digit s)"
  shows "py_int s = None"
proof (cases "strip s")
  case Nil
  then show ?thesis by (simp add: py_int_def)
next
  case (Cons c cs)
  from assms have all: "int_max_str_digits < length (filter is_digit (c # cs))"
    using filter_digit_strip [of s] Cons by simp
  have sign: "c = CHR ''-'' \<or> c = CHR ''+'' \<Longrightarrow> \<not> is_digit c"
    by (auto simp: is_digit_def)
  from all sign have "c = CHR ''-'' \<or> c = CHR ''+'' \<Longrightarrow> int_digits cs = None"
    by (intro int_digits_limit) auto
  with all show ?thesis
    by (auto simp: py_int_def Cons int_digits_limit)
qed

section \<open>The first tag decides\<close>

text \<open>
  C10.  The extraction commits to the first tag, in list order, that starts with
  \<^verbatim>\<open>powered_off_days=\<close>: whatever follows that tag, the result is the integer after its
  \<^verbatim>\<open>=\<close>, or 0 when \<^verbatim>\<open>int\<close> does not read that text as an integer, as when it holds more
  than 4300 digits.  The committed tag is taken to be ASCII text, where \<open>py_int\<close> is
  \<^verbatim>\<open>int\<close>; the tags before and after it are arbitrary.  So the powered-off record with tags
  \<^verbatim>\<open>["powered_off_days=bad", "powered_off_days=120"]\<close> yields 0 and the zombie tier does not
  match, although a well-formed tag with a value above 60 is present.
\<close>

theorem extract_commits_to_first_tag:
  "((\<forall>p \<in> set pre. \<not> prefix ''powered_off_days='' p) \<and> prefix ''powered_off_days='' t
      \<and> ascii t \<longrightarrow>
      extract_powered_off_days (PList (map PStr pre @ PStr t # rest)) =
        Inr (case py_int (drop 17 t) of None \<Rightarrow> 0 | Some n \<Rightarrow> n)
      \<and> (4300 < length (filter is_digit (drop 17 t)) \<longrightarrow>
           extract_powered_off_days (PList (map PStr pre @ PStr t # rest)) = Inr 0))
   \<and> dict_get bad_first_tag_vm ''power_state'' PNone = PStr ''poweredOff''
   \<and> dict_get bad_first_tag_vm ''tags'' (PList []) =
       PList [PStr ''powered_off_days=bad'', PStr ''powered_off_days=120'']
   \<and> days_tag_over_60 ''powered_off_days=120''
   \<and> extract_powered_off_days (dict_get bad_first_tag_vm ''tags'' (PList [])) = Inr 0
   \<and> zombie_tier bad_first_tag_vm = Inr None
   \<and> classify an_engine no_printer bad_first_tag_vm =
       Inr (''keep'', ''medium'', ''default-conservative'',
            ''Conservative default: keep on-premises'')"
proof -
  have general: "(\<forall>p \<in> set pre. \<not> prefix ''powered_off_days='' p)
      \<and> prefix ''powered_off_days='' t \<and> ascii t \<longrightarrow>
      extract_powered_off_days (PList (map PStr pre @ PStr t # rest)) =
        Inr (case py_int (drop 17 t) of None \<Rightarrow> 0 | Some n \<Rightarrow> n)
      \<and> (4300 < length (filter is_digit (drop 17 t)) \<longrightarrow>
           extract_powered_off_days (PList (map PStr pre @ PStr t # rest)) = Inr 0)"
  proof (intro impI, elim conjE)
    assume none: "\<forall>p \<in> set pre. \<not> prefix ''powered_off_days='' p"
      and t: "prefix ''powered_off_days='' t"
    have v: "extract_powered_off_days (PList (map PStr pre @ PStr t # rest)) =
        Inr (case py_int (drop 17 t) of None \<Rightarrow> 0 | Some n \<Rightarrow> n)"
      by (simp add: extract_powered_off_days_def scan_tags_first [OF none t])
    have "extract_powered_off_days (PList (map PStr pre @ PStr t # rest)) = Inr 0"
      if "4300 < length (filter is_digit (drop 17 t))"
      using that py_int_digit_limit [of "drop 17 t"] v
      by (simp add: int_max_str_digits_def)
    with v show "extract_powered_off_days (PList (map PStr pre @ PStr t # rest)) =
        Inr (case py_int (drop 17 t) of None \<Rightarrow> 0 | Some n \<Rightarrow> n)
      \<and> (4300 < length (filter is_digit (drop 17 t)) \<longrightarrow>
           extract_powered_off_days (PList (map PStr pre @ PStr t # rest)) = Inr 0)"
      by blast
  qed
  have e1: "dict_get bad_first_tag_vm ''power_state'' PNone = PStr ''poweredOff''"
    by (simp add: bad_first_tag_vm_def dict_get_def)
  have e2: "dict_get bad_first_tag_vm ''tags'' (PList []) =
       PList [PStr ''powered_off_days=bad'', PStr ''powered_off_days=120'']"
    by (simp add: bad_first_tag_vm_def dict_get_def)
  have e3: "days_tag_over_60 ''powered_off_days=120''"
    by (simp add: days_tag_over_60_def string_eval)
  have e4: "extract_powered_off_days (dict_get bad_first_tag_vm ''tags'' (PList [])) = Inr 0"
    by (simp add: bad_first_tag_vm_def classify_eval string_eval)
  have e5: "zombie_tier bad_first_tag_vm = Inr None"
    by (simp add: bad_first_tag_vm_def classify_eval string_eval)
  have e6: "classify an_engine no_printer bad_first_tag_vm =
       Inr (''keep'', ''medium'', ''default-conservative'',
            ''Conservative default: keep on-premises'')"
    by (simp add: bad_first_tag_vm_def classify_eval string_eval)
  show ?thesis
    by (rule conjI [OF general conjI [OF e1 conjI [OF e2 conjI [OF e3 conjI [OF e4
          conjI [OF e5 e6]]]]]])
qed

theorem extract_commits_to_first_tag_witness:
  "\<not> prefix ''powered_off_days='' ''env=prod''
   \<and> prefix ''powered_off_days='' ''powered_off_days=bad''
   \<and> ascii ''powered_off_days=bad''
   \<and> extract_powered_off_days
        (PList [PStr ''env=prod'', PStr ''powered_off_days=bad'', PStr ''powered_off_days=120'',
                PInt 7]) = Inr 0"
proof -
  have h: "(\<forall>p \<in> set [''env=prod'']. \<not> prefix ''powered_off_days='' p)
             \<and> prefix ''powered_off_days='' ''powered_off_days=bad''
             \<and> ascii ''powered_off_days=bad''"
    by (simp add: ascii_def)
  have v: "py_int (drop 17 ''powered_off_days=bad'') = None"
    by (simp add: string_eval)
  note t = extract_commits_to_first_tag
         [of "[''env=prod'']" "''powered_off_days=bad''" "[PStr ''powered_off_days=120'', PInt 7]"]
  from t [THEN conjunct1, THEN mp, OF h, THEN conjunct1] v
  have "extract_powered_off_days
        (PList [PStr ''env=prod'', PStr ''powered_off_days=bad'', PStr ''powered_off_days=120'',
                PInt 7]) = Inr 0"
    by simp
  with h show ?thesis by simp
qed

section \<open>Vocabulary and shapes of the results\<close>

text \<open>
  C8.  Every result \<^verbatim>\<open>classify\<close> returns has its category among the four categories and
  its confidence among the three confidences, and every well-formed record gets a result.
\<close>

theorem classify_vocabulary:
  "(well_formed vm \<longrightarrow> (\<exists>r. classify self rp vm = Inr r))
   \<and> (classify self rp vm = Inr (c, k, rule, reason) \<longrightarrow>
        c \<in> {''rehost'', ''refactor_candidate'', ''retire'', ''keep''}
        \<and> k \<in> {''high'', ''medium'', ''low''})"
proof -
  have "c \<in> {''rehost'', ''refactor_candidate'', ''retire'', ''keep''}
        \<and> k \<in> {''high'', ''medium'', ''low''}"
    if "classify self rp vm = Inr (c, k, rule, reason)"
    using that by (cases rule: classify_result_cases) simp_all
  then show ?thesis
    using classify_total [of vm self rp] by blast
qed

theorem classify_vocabulary_witness:
  "well_formed refactor_vm
   \<and> (\<exists>r. classify an_engine no_printer refactor_vm = Inr r)
   \<and> ''refactor_candidate'' \<in> {''rehost'', ''refactor_candidate'', ''retire'', ''keep''}
   \<and> ''medium'' \<in> {''high'', ''medium'', ''low''}"
proof -
  have w: "well_formed refactor_vm"
    by (simp add: refactor_vm_def well_formed_def numeric_fields_def is_number_def is_string_def)
  have r: "classify an_engine no_printer refactor_vm =
       Inr (''refactor_candidate'', ''medium'', ''conservative-refactor'',
            ''Linux; low risk profile; single NIC; small disk; eligible for containerization'')"
    by (simp add: refactor_vm_def classify_eval string_eval)
  note t = classify_vocabulary [of refactor_vm an_engine no_printer "''refactor_candidate''"
         "''medium''" "''conservative-refactor''"
         "''Linux; low risk profile; single NIC; small disk; eligible for containerization''"]
  have total: "\<exists>r. classify an_engine no_printer refactor_vm = Inr r"
    by (rule t [THEN conjunct1, THEN mp, OF w])
  have m: "''refactor_candidate'' \<in> {''rehost'', ''refactor_candidate'', ''retire'', ''keep''}
             \<and> ''medium'' \<in> {''high'', ''medium'', ''low''}"
    by (rule t [THEN conjunct2, THEN mp, OF r])
  show ?thesis
    by (rule conjI [OF w conjI [OF total m]])
qed

text \<open>
  C9.  Every result \<^verbatim>\<open>classify\<close> returns has one of five shapes (six triples, the rehost
  shape having two confidences), and each of them is returned for some record.  The
  confidence is never \<^verbatim>\<open>low\<close>; the category \<^verbatim>\<open>retire\<close> comes from the zombie tier only, so
  a retired record is powered off; \<^verbatim>\<open>rehost\<close> has confidence medium or high.  Every
  well-formed record gets a result.
\<close>

theorem classify_shapes:
  "(well_formed vm \<longrightarrow> (\<exists>r. classify self rp vm = Inr r))
   \<and> (classify self rp vm = Inr (c, k, rule, reason) \<longrightarrow>
        (c, k, rule) \<in>
          {(''retire'', ''high'', ''zombie-detection''),
           (''keep'', ''high'', ''legacy-os-detection''),
           (''rehost'', ''medium'', ''workload-complexity''),
           (''rehost'', ''high'', ''workload-complexity''),
           (''refactor_candidate'', ''medium'', ''conservative-refactor''),
           (''keep'', ''medium'', ''default-conservative'')}
        \<and> k \<noteq> ''low''
        \<and> (c = ''retire'' \<longrightarrow>
             rule = ''zombie-detection''
             \<and> dict_get vm ''power_state'' PNone = PStr ''poweredOff'')
        \<and> (c = ''rehost'' \<longrightarrow> k = ''medium'' \<or> k = ''high''))
   \<and> (\<exists>s. classify an_engine no_printer zombie_vm =
             Inr (''retire'', ''high'', ''zombie-detection'', s))
   \<and> (\<exists>s. classify an_engine no_printer legacy_vm =
             Inr (''keep'', ''high'', ''legacy-os-detection'', s))
   \<and> (\<exists>s. classify an_engine no_printer many_nics_vm =
             Inr (''rehost'', ''medium'', ''workload-complexity'', s))
   \<and> (\<exists>s. classify an_engine no_printer complex_vm =
             Inr (''rehost'', ''high'', ''workload-complexity'', s))
   \<and> (\<exists>s. classify an_engine no_printer refactor_vm =
             Inr (''refactor_candidate'', ''medium'', ''conservative-refactor'', s))
   \<and> (\<exists>s. classify an_engine no_printer fedora_vm =
             Inr (''keep'', ''medium'', ''default-conservative'', s))"
proof -
  have total: "well_formed vm \<longrightarrow> (\<exists>r. classify self rp vm = Inr r)"
    using classify_total [of vm self rp] by blast
  have e1: "\<exists>s. classify an_engine no_printer zombie_vm =
             Inr (''retire'', ''high'', ''zombie-detection'', s)"
    by (simp add: zombie_vm_def classify_eval string_eval)
  have e2: "\<exists>s. classify an_engine no_printer legacy_vm =
             Inr (''keep'', ''high'', ''legacy-os-detection'', s)"
    by (simp add: legacy_vm_def classify_eval string_eval)
  have e3: "\<exists>s. classify an_engine no_printer many_nics_vm =
             Inr (''rehost'', ''medium'', ''workload-complexity'', s)"
    by (simp add: many_nics_vm_def classify_eval string_eval)
  have e4: "\<exists>s. classify an_engine no_printer complex_vm =
             Inr (''rehost'', ''high'', ''workload-complexity'', s)"
    by (simp add: complex_vm_def classify_eval string_eval)
  have e5: "\<exists>s. classify an_engine no_printer refactor_vm =
             Inr (''refactor_candidate'', ''medium'', ''conservative-refactor'', s)"
    by (simp add: refactor_vm_def classify_eval string_eval)
  have e6: "\<exists>s. classify an_engine no_printer fedora_vm =
             Inr (''keep'', ''medium'', ''default-conservative'', s)"
    by (simp add: fedora_vm_def classify_eval string_eval)
  note sh = impI [OF classify_shape [of self rp vm c k rule reason]]
  show ?thesis
    by (rule conjI [OF total conjI [OF sh conjI [OF e1 conjI [OF e2 conjI [OF e3
          conjI [OF e4 conjI [OF e5 e6]]]]]]])
qed

theorem classify_shapes_witness:
  "well_formed complex_vm
   \<and> (\<exists>r. classify an_engine no_printer complex_vm = Inr r)
   \<and> classify an_engine no_printer complex_vm =
       Inr (''rehost'', ''high'', ''workload-complexity'',
            ''Complex snapshot state (8 snapshots) requires stateful rehost; Multi-NIC configuration (4 NICs) requires careful networking planning'')
   \<and> ''high'' \<noteq> ''low''
   \<and> (''high'' = ''medium'' \<or> ''high'' = ''high'')"
proof -
  have w: "well_formed complex_vm"
    by (simp add: complex_vm_def well_formed_def numeric_fields_def is_number_def is_string_def)
  have r: "classify an_engine no_printer complex_vm =
       Inr (''rehost'', ''high'', ''workload-complexity'',
            ''Complex snapshot state (8 snapshots) requires stateful rehost; Multi-NIC configuration (4 NICs) requires careful networking planning'')"
    by (simp add: complex_vm_def classify_eval string_eval)
  note t = classify_shapes [of complex_vm an_engine no_printer "''rehost''" "''high''"
         "''workload-complexity''"
         "''Complex snapshot state (8 snapshots) requires stateful rehost; Multi-NIC configuration (4 NICs) requires careful networking planning''"]
  have total: "\<exists>r. classify an_engine no_printer complex_vm = Inr r"
    by (rule t [THEN conjunct1, THEN mp, OF w])
  note s = t [THEN conjunct2, THEN conjunct1, THEN mp, OF r]
  have low: "''high'' \<noteq> ''low''"
    by (rule s [THEN conjunct2, THEN conjunct1])
  have conf: "''high'' = ''medium'' \<or> ''high'' = ''high''"
    by (rule s [THEN conjunct2, THEN conjunct2, THEN conjunct2, THEN mp, OF refl])
  show ?thesis
    by (rule conjI [OF w conjI [OF total conjI [OF r conjI [OF low conf]]]])
qed

section \<open>Tiers 3, 4 and 5\<close>

lemma not_rehost_after_tier3:
  assumes "refactor_tier g vm = Inr z"
  shows "(case z of Some r \<Rightarrow> r | None \<Rightarrow> default_result) \<noteq> (''rehost'', k, rule, s)"
  using assms refactor_tier_Some [of g vm]
  by (cases z) (auto simp: default_result_def refactor_result_def)

text \<open>
  C6.  For a record that the zombie and legacy-OS tiers did not match and whose three
  tier-3 comparisons evaluate, \<^verbatim>\<open>classify\<close> returns category \<^verbatim>\<open>rehost\<close> (with rule
  \<^verbatim>\<open>workload-complexity\<close>) exactly when at least one of: snapshot count above 5, NIC count
  above 3, tooling status other than \<^verbatim>\<open>running\<close>, disk above 300 GB.  The confidence is
  \<^verbatim>\<open>medium\<close> when one of them holds and \<^verbatim>\<open>high\<close> when two or more do, and the reason is the
  fragments of those that hold, in that order, joined with \<^verbatim>\<open>"; "\<close>.
\<close>

theorem workload_complexity_tier:
  assumes z: "zombie_tier vm = Inr None"
    and g: "guest_os_lower vm = Inr guest_os"
    and l: "legacy_scan legacy_patterns guest_os = None"
    and s: "py_gt (dict_get vm ''snapshot_count'' (PInt 0)) 5 = Inr snap"
    and n: "py_gt (dict_get vm ''nics'' (PInt 0)) 3 = Inr nic"
    and t: "tools = (dict_get vm ''tools_status'' PNone \<noteq> PStr ''running'')"
    and d: "py_gt (dict_get vm ''disk_gb'' (PInt 0)) 300 = Inr disk"
  shows "((\<exists>k reason. classify self rp vm = Inr (''rehost'', k, ''workload-complexity'', reason))
            \<longleftrightarrow> (snap \<or> nic \<or> tools \<or> disk))
       \<and> ((\<exists>k rule reason. classify self rp vm = Inr (''rehost'', k, rule, reason))
            \<longleftrightarrow> (snap \<or> nic \<or> tools \<or> disk))
       \<and> (snap \<or> nic \<or> tools \<or> disk \<longrightarrow>
            classify self rp vm =
              Inr (''rehost'',
                   (if 2 \<le> count_true [snap, nic, tools, disk] then ''high'' else ''medium''),
                   ''workload-complexity'',
                   join ''; '' (map snd (filter fst
                     [(snap, snapshot_fragment rp vm), (nic, nics_fragment rp vm),
                      (tools, tools_fragment rp vm), (disk, disk_fragment rp vm)]))))"
proof -
  let ?frags = "map snd (filter fst
                     [(snap, snapshot_fragment rp vm), (nic, nics_fragment rp vm),
                      (tools, tools_fragment rp vm), (disk, disk_fragment rp vm)])"
  have rs: "rehost_reasons rp vm = Inr ?frags"
    by (simp add: rehost_reasons_def s n d t [symmetric])
  have len: "length ?frags = count_true [snap, nic, tools, disk]"
    by (simp add: count_true_def)
  have ne: "?frags \<noteq> [] \<longleftrightarrow> (snap \<or> nic \<or> tools \<or> disk)"
    by simp
  show ?thesis
  proof (cases "snap \<or> nic \<or> tools \<or> disk")
    case True
    then have "rehost_tier rp vm =
        Inr (Some (''rehost'',
                   (if 2 \<le> count_true [snap, nic, tools, disk] then ''high'' else ''medium''),
                   ''workload-complexity'', join ''; '' ?frags))"
      unfolding rehost_tier_def rs len [symmetric] using ne
      by (auto simp: Suc_le_eq numeral_2_eq_2)
    then have "classify self rp vm =
        Inr (''rehost'',
                   (if 2 \<le> count_true [snap, nic, tools, disk] then ''high'' else ''medium''),
                   ''workload-complexity'', join ''; '' ?frags)"
      by (simp add: classify_def z g l)
    with True show ?thesis by simp
  next
    case False
    then have h: "rehost_tier rp vm = Inr None"
      unfolding rehost_tier_def rs using ne by simp
    have "classify self rp vm \<noteq> Inr (''rehost'', k, rule, reason)" for k rule reason
    proof (cases "refactor_tier guest_os vm")
      case (Inl e)
      then show ?thesis by (simp add: classify_def z g l h)
    next
      case (Inr f)
      from not_rehost_after_tier3 [OF this, of k rule reason] Inr show ?thesis
        by (auto simp: classify_def z g l h split: option.splits)
    qed
    with False show ?thesis by simp
  qed
qed


theorem workload_complexity_tier_witness:
  "zombie_tier complex_vm = Inr None
   \<and> guest_os_lower complex_vm = Inr ''windows server 2019''
   \<and> legacy_scan legacy_patterns ''windows server 2019'' = None
   \<and> py_gt (dict_get complex_vm ''snapshot_count'' (PInt 0)) 5 = Inr True
   \<and> py_gt (dict_get complex_vm ''nics'' (PInt 0)) 3 = Inr True
   \<and> False = (dict_get complex_vm ''tools_status'' PNone \<noteq> PStr ''running'')
   \<and> py_gt (dict_get complex_vm ''disk_gb'' (PInt 0)) 300 = Inr False
   \<and> classify an_engine no_printer complex_vm =
       Inr (''rehost'', ''high'', ''workload-complexity'',
            ''Complex snapshot state (8 snapshots) requires stateful rehost; Multi-NIC configuration (4 NICs) requires careful networking planning'')"
proof -
  have z: "zombie_tier complex_vm = Inr None"
    by (simp add: complex_vm_def zombie_tier_def dict_get_def)
  have g: "guest_os_lower complex_vm = Inr ''windows server 2019''"
    by (simp add: complex_vm_def guest_os_lower_def dict_get_def string_eval)
  have l: "legacy_scan legacy_patterns ''windows server 2019'' = None"
    by (simp add: legacy_patterns_def string_eval)
  have s: "py_gt (dict_get complex_vm ''snapshot_count'' (PInt 0)) 5 = Inr True"
    by (simp add: complex_vm_def dict_get_def)
  have n: "py_gt (dict_get complex_vm ''nics'' (PInt 0)) 3 = Inr True"
    by (simp add: complex_vm_def dict_get_def)
  have t: "False = (dict_get complex_vm ''tools_status'' PNone \<noteq> PStr ''running'')"
    by (simp add: complex_vm_def dict_get_def)
  have d: "py_gt (dict_get complex_vm ''disk_gb'' (PInt 0)) 300 = Inr False"
    by (simp add: complex_vm_def dict_get_def)
  have frags: "join ''; '' (map snd (filter fst
                 [(True, snapshot_fragment no_printer complex_vm),
                  (True, nics_fragment no_printer complex_vm),
                  (False, tools_fragment no_printer complex_vm),
                  (False, disk_fragment no_printer complex_vm)]))
        = ''Complex snapshot state (8 snapshots) requires stateful rehost; Multi-NIC configuration (4 NICs) requires careful networking planning''"
    by (simp add: complex_vm_def snapshot_fragment_def nics_fragment_def dict_get_def string_eval)
  have cnt: "(if 2 \<le> count_true [True, True, False, False] then ''high'' else ''medium'') = ''high''"
    by (simp add: count_true_def)
  note w = workload_complexity_tier [OF z g l s n t d, of an_engine no_printer]
  have "classify an_engine no_printer complex_vm =
       Inr (''rehost'', ''high'', ''workload-complexity'',
            ''Complex snapshot state (8 snapshots) requires stateful rehost; Multi-NIC configuration (4 NICs) requires careful networking planning'')"
    using w [THEN conjunct2, THEN conjunct2] unfolding frags cnt by simp
  with z g l s n t d show ?thesis by simp
qed

text \<open>
  C7.  For a record that reaches tier 4 (the zombie, legacy-OS and workload-complexity
  tiers did not match) and whose tier-4 comparisons evaluate, \<^verbatim>\<open>classify\<close> returns
  \<^verbatim>\<open>(refactor_candidate, medium, conservative-refactor)\<close> exactly when the lower-cased guest
  OS contains \<^verbatim>\<open>linux\<close>, \<^verbatim>\<open>rhel\<close>, \<^verbatim>\<open>centos\<close>, \<^verbatim>\<open>ubuntu\<close> or \<^verbatim>\<open>debian\<close>, the NIC count is
  at most 1, the disk at most 100 GB and none of the four risk signals holds; in every
  other case it returns \<^verbatim>\<open>(keep, medium, default-conservative)\<close>.
\<close>

theorem refactor_or_default_tier:
  assumes z: "zombie_tier vm = Inr None"
    and g: "guest_os_lower vm = Inr guest_os"
    and l: "legacy_scan legacy_patterns guest_os = None"
    and h: "rehost_tier rp vm = Inr None"
    and n: "py_le (dict_get vm ''nics'' (PInt 1)) 1 = Inr one_nic"
    and d: "py_le (dict_get vm ''disk_gb'' (PInt 0)) 100 = Inr small_disk"
    and s: "py_gt (dict_get vm ''snapshot_count'' (PInt 0)) 0 = Inr snap"
    and c: "py_gt (dict_get vm ''avg_cpu_usage_pct'' (PInt 0)) 70 = Inr cpu"
    and m: "py_gt (dict_get vm ''avg_mem_usage_pct'' (PInt 0)) 70 = Inr mem"
    and u: "py_gt (dict_get vm ''uptime_days'' (PInt 0)) 365 = Inr up"
  shows "classify self rp vm =
           Inr (if (sublist ''linux'' guest_os \<or> sublist ''rhel'' guest_os
                    \<or> sublist ''centos'' guest_os \<or> sublist ''ubuntu'' guest_os
                    \<or> sublist ''debian'' guest_os)
                   \<and> one_nic \<and> small_disk \<and> count_true [snap, cpu, mem, up] = 0
                then (''refactor_candidate'', ''medium'', ''conservative-refactor'',
                      ''Linux; low risk profile; single NIC; small disk; eligible for containerization'')
                else (''keep'', ''medium'', ''default-conservative'',
                      ''Conservative default: keep on-premises''))"
proof -
  have risk: "risk_signals vm = Inr (count_true [snap, cpu, mem, up])"
    by (simp add: risk_signals_def s c m u count_true_def)
  have small: "small_linux guest_os vm = Inr (is_linux guest_os \<and> one_nic \<and> small_disk)"
    by (simp add: small_linux_def n d)
  have "refactor_tier guest_os vm =
          Inr (if is_linux guest_os \<and> one_nic \<and> small_disk \<and> count_true [snap, cpu, mem, up] = 0
               then Some refactor_result else None)"
    by (simp add: refactor_tier_def small risk)
  then show ?thesis
    by (simp add: classify_def z g l h is_linux_def refactor_result_def default_result_def)
qed

theorem refactor_or_default_tier_witness:
  "zombie_tier refactor_vm = Inr None
   \<and> guest_os_lower refactor_vm = Inr ''ubuntu 20.04''
   \<and> legacy_scan legacy_patterns ''ubuntu 20.04'' = None
   \<and> rehost_tier no_printer refactor_vm = Inr None
   \<and> py_le (dict_get refactor_vm ''nics'' (PInt 1)) 1 = Inr True
   \<and> py_le (dict_get refactor_vm ''disk_gb'' (PInt 0)) 100 = Inr True
   \<and> py_gt (dict_get refactor_vm ''snapshot_count'' (PInt 0)) 0 = Inr False
   \<and> py_gt (dict_get refactor_vm ''avg_cpu_usage_pct'' (PInt 0)) 70 = Inr False
   \<and> py_gt (dict_get refactor_vm ''avg_mem_usage_pct'' (PInt 0)) 70 = Inr False
   \<and> py_gt (dict_get refactor_vm ''uptime_days'' (PInt 0)) 365 = Inr False
   \<and> classify an_engine no_printer refactor_vm =
       Inr (''refactor_candidate'', ''medium'', ''conservative-refactor'',
            ''Linux; low risk profile; single NIC; small disk; eligible for containerization'')"
proof -
  have z: "zombie_tier refactor_vm = Inr None"
    by (simp add: refactor_vm_def zombie_tier_def dict_get_def)
  have g: "guest_os_lower refactor_vm = Inr ''ubuntu 20.04''"
    by (simp add: refactor_vm_def guest_os_lower_def dict_get_def string_eval)
  have l: "legacy_scan legacy_patterns ''ubuntu 20.04'' = None"
    by (simp add: legacy_patterns_def string_eval)
  have h: "rehost_tier no_printer refactor_vm = Inr None"
    by (simp add: refactor_vm_def rehost_tier_def rehost_reasons_def dict_get_def)
  have n: "py_le (dict_get refactor_vm ''nics'' (PInt 1)) 1 = Inr True"
    by (simp add: refactor_vm_def dict_get_def)
  have d: "py_le (dict_get refactor_vm ''disk_gb'' (PInt 0)) 100 = Inr True"
    by (simp add: refactor_vm_def dict_get_def)
  have s: "py_gt (dict_get refactor_vm ''snapshot_count'' (PInt 0)) 0 = Inr False"
    by (simp add: refactor_vm_def dict_get_def)
  have c: "py_gt (dict_get refactor_vm ''avg_cpu_usage_pct'' (PInt 0)) 70 = Inr False"
    by (simp add: refactor_vm_def dict_get_def)
  have m: "py_gt (dict_get refactor_vm ''avg_mem_usage_pct'' (PInt 0)) 70 = Inr False"
    by (simp add: refactor_vm_def dict_get_def)
  have u: "py_gt (dict_get refactor_vm ''uptime_days'' (PInt 0)) 365 = Inr False"
    by (simp add: refactor_vm_def dict_get_def)
  have lin: "sublist ''ubuntu'' ''ubuntu 20.04''"
    by (simp add: string_eval)
  have cnt: "count_true [False, False, False, False] = 0"
    by (simp add: count_true_def)
  have "classify an_engine no_printer refactor_vm =
       Inr (''refactor_candidate'', ''medium'', ''conservative-refactor'',
            ''Linux; low risk profile; single NIC; small disk; eligible for containerization'')"
    using refactor_or_default_tier [OF z g l h n d s c m u, of an_engine] lin cnt by simp
  with z g l h n d s c m u show ?thesis by simp
qed

section \<open>The risk score\<close>

lemma add_signal_fst: "fst (add_signal b w e st) = fst st + weight w b"
  by (simp add: add_signal_def weight_def)

lemma clamp_score_bounds: "0 \<le> clamp_score s \<and> clamp_score s \<le> 100"
  by (simp add: clamp_score_def Let_def)

lemma clamp_score_eq: "clamp_score s = max 0 (min 100 s)"
  by (simp add: clamp_score_def Let_def)

lemma raw_score_Inr:
  assumes "py_gt (dict_get vm ''snapshot_count'' (PInt 0)) 5 = Inr snap"
    and "py_gt (dict_get vm ''max_snapshot_age_days'' (PInt 0)) 30 = Inr age"
    and "guest_os_lower vm = Inr guest"
    and "py_gt (dict_get vm ''nics'' (PInt 0)) 3 = Inr nic"
    and "high_avg_usage vm = Inr usage"
    and "py_gt (dict_get vm ''uptime_days'' (PInt 0)) 365 = Inr up"
  shows "raw_score vm =
           Inr (add_signal up 10 ''uptime_days>365:+10''
               (add_signal usage 15 ''high_avg_usage:+15''
               (add_signal nic 10 ''nics>3:+10''
               (add_signal (dict_get vm ''tools_status'' PNone \<noteq> PStr ''running'') 10
                  ''tools_status_not_running:+10''
               (add_signal (list_ex (\<lambda>tok. sublist tok guest) legacy_tokens) 25
                  ''guest_os_legacy:+25''
               (add_signal age 15 ''max_snapshot_age_days>30:+15''
               (add_signal snap 20 ''snapshot_count>5:+20'' (0, []))))))))"
  unfolding raw_score_def assms Let_def by simp

lemma raw_score_sum:
  assumes r: "raw_score vm = Inr (raw, trace)"
  shows "\<exists>snap age guest nic usage up.
           py_gt (dict_get vm ''snapshot_count'' (PInt 0)) 5 = Inr snap
         \<and> py_gt (dict_get vm ''max_snapshot_age_days'' (PInt 0)) 30 = Inr age
         \<and> guest_os_lower vm = Inr guest
         \<and> py_gt (dict_get vm ''nics'' (PInt 0)) 3 = Inr nic
         \<and> high_avg_usage vm = Inr usage
         \<and> py_gt (dict_get vm ''uptime_days'' (PInt 0)) 365 = Inr up
         \<and> raw = weight 20 snap + weight 15 age
                 + weight 25 (list_ex (\<lambda>tok. sublist tok guest) legacy_tokens)
                 + weight 10 (dict_get vm ''tools_status'' PNone \<noteq> PStr ''running'')
                 + weight 10 nic + weight 15 usage + weight 10 up"
proof -
  obtain snap where s: "py_gt (dict_get vm ''snapshot_count'' (PInt 0)) 5 = Inr snap"
    using r by (cases "py_gt (dict_get vm ''snapshot_count'' (PInt 0)) 5")
      (simp_all add: raw_score_def)
  obtain age where a: "py_gt (dict_get vm ''max_snapshot_age_days'' (PInt 0)) 30 = Inr age"
    using r s by (cases "py_gt (dict_get vm ''max_snapshot_age_days'' (PInt 0)) 30")
      (simp_all add: raw_score_def)
  obtain guest where g: "guest_os_lower vm = Inr guest"
    using r s a by (cases "guest_os_lower vm") (simp_all add: raw_score_def)
  obtain nic where n: "py_gt (dict_get vm ''nics'' (PInt 0)) 3 = Inr nic"
    using r s a g by (cases "py_gt (dict_get vm ''nics'' (PInt 0)) 3")
      (simp_all add: raw_score_def)
  obtain usage where h: "high_avg_usage vm = Inr usage"
    using r s a g n by (cases "high_avg_usage vm") (simp_all add: raw_score_def)
  obtain up where u: "py_gt (dict_get vm ''uptime_days'' (PInt 0)) 365 = Inr up"
    using r s a g n h by (cases "py_gt (dict_get vm ''uptime_days'' (PInt 0)) 365")
      (simp_all add: raw_score_def)
  from r have "raw = fst (add_signal up 10 ''uptime_days>365:+10''
               (add_signal usage 15 ''high_avg_usage:+15''
               (add_signal nic 10 ''nics>3:+10''
               (add_signal (dict_get vm ''tools_status'' PNone \<noteq> PStr ''running'') 10
                  ''tools_status_not_running:+10''
               (add_signal (list_ex (\<lambda>tok. sublist tok guest) legacy_tokens) 25
                  ''guest_os_legacy:+25''
               (add_signal age 15 ''max_snapshot_age_days>30:+15''
               (add_signal snap 20 ''snapshot_count>5:+20'' (0, []))))))))"
    unfolding raw_score_Inr [OF s a g n h u] by (metis Inr_inject fst_conv)
  then have "raw = weight 20 snap + weight 15 age
                 + weight 25 (list_ex (\<lambda>tok. sublist tok guest) legacy_tokens)
                 + weight 10 (dict_get vm ''tools_status'' PNone \<noteq> PStr ''running'')
                 + weight 10 nic + weight 15 usage + weight 10 up"
    by (simp only: add_signal_fst fst_conv)
  with s a g n h u show ?thesis by blast
qed

lemma raw_score_range:
  assumes "raw_score vm = Inr (raw, trace)"
  shows "0 \<le> raw \<and> raw \<le> 105"
proof -
  from raw_score_sum [OF assms] obtain snap age guest nic usage up where
    "raw = weight 20 snap + weight 15 age
                 + weight 25 (list_ex (\<lambda>tok. sublist tok guest) legacy_tokens)
                 + weight 10 (dict_get vm ''tools_status'' PNone \<noteq> PStr ''running'')
                 + weight 10 nic + weight 15 usage + weight 10 up"
    by blast
  then show ?thesis
    by (simp add: weight_def)
qed

lemma wf_high_avg_usage:
  assumes "well_formed vm"
  shows "\<exists>b. high_avg_usage vm = Inr b"
proof -
  obtain a where a: "py_gt (dict_get vm ''avg_cpu_usage_pct'' (PInt 0)) 80 = Inr a"
    using wf_gt [OF assms, of "''avg_cpu_usage_pct''"] by (auto simp: numeric_fields_def)
  obtain b where b: "py_gt (dict_get vm ''avg_mem_usage_pct'' (PInt 0)) 80 = Inr b"
    using wf_gt [OF assms, of "''avg_mem_usage_pct''"] by (auto simp: numeric_fields_def)
  show ?thesis by (auto simp: high_avg_usage_def a b)
qed

lemma raw_score_total:
  assumes "well_formed vm"
  shows "\<exists>raw trace. raw_score vm = Inr (raw, trace)"
proof -
  obtain a where a: "py_gt (dict_get vm ''snapshot_count'' (PInt 0)) 5 = Inr a"
    using wf_gt [OF assms, of "''snapshot_count''"] by (auto simp: numeric_fields_def)
  obtain b where b: "py_gt (dict_get vm ''max_snapshot_age_days'' (PInt 0)) 30 = Inr b"
    using wf_gt [OF assms, of "''max_snapshot_age_days''"] by (auto simp: numeric_fields_def)
  obtain g where g: "guest_os_lower vm = Inr g" using wf_guest [OF assms] by blast
  obtain c where c: "py_gt (dict_get vm ''nics'' (PInt 0)) 3 = Inr c"
    using wf_gt [OF assms, of "''nics''"] by (auto simp: numeric_fields_def)
  obtain d where d: "high_avg_usage vm = Inr d" using wf_high_avg_usage [OF assms] by blast
  obtain e where e: "py_gt (dict_get vm ''uptime_days'' (PInt 0)) 365 = Inr e"
    using wf_gt [OF assms, of "''uptime_days''"] by (auto simp: numeric_fields_def)
  show ?thesis
    unfolding raw_score_Inr [OF a b g c d e] by (metis surj_pair)
qed

text \<open>
  C4.  Every score \<^verbatim>\<open>score_vm\<close> returns lies between 0 and 100, and every well-formed record
  gets one.  The score is the raw sum clamped: the raw sum adds the weights 20, 15, 25, 10,
  10, 15 and 10 of the signals that fired, so it lies between 0 and 105, and the score is
  the smaller of it and 100.  The upper clamp is reached by the record on which all seven
  signals fire (raw sum 105, score 100).  The lower clamp is in the code, sending every
  negative sum to 0, and no record produces a negative sum.
\<close>

theorem score_bounds:
  "(well_formed vm \<longrightarrow> (\<exists>s tr. score_vm vm = Inr (s, tr)))
   \<and> (score_vm vm = Inr (s, tr) \<longrightarrow>
        0 \<le> s \<and> s \<le> 100
        \<and> (\<exists>raw. raw_score vm = Inr (raw, tr) \<and> 0 \<le> raw \<and> raw \<le> 105 \<and> s = min 100 raw
              \<and> (\<exists>snap age guest nic usage up.
                    py_gt (dict_get vm ''snapshot_count'' (PInt 0)) 5 = Inr snap
                  \<and> py_gt (dict_get vm ''max_snapshot_age_days'' (PInt 0)) 30 = Inr age
                  \<and> guest_os_lower vm = Inr guest
                  \<and> py_gt (dict_get vm ''nics'' (PInt 0)) 3 = Inr nic
                  \<and> high_avg_usage vm = Inr usage
                  \<and> py_gt (dict_get vm ''uptime_days'' (PInt 0)) 365 = Inr up
                  \<and> raw = weight 20 snap + weight 15 age
                          + weight 25 (list_ex (\<lambda>tok. sublist tok guest) legacy_tokens)
                          + weight 10 (dict_get vm ''tools_status'' PNone \<noteq> PStr ''running'')
                          + weight 10 nic + weight 15 usage + weight 10 up)))
   \<and> clamp_score x = (if 100 < x then 100 else if x < 0 then 0 else x)
   \<and> raw_score all_signals_vm =
        Inr (105, [''snapshot_count>5:+20'', ''max_snapshot_age_days>30:+15'',
                   ''guest_os_legacy:+25'', ''tools_status_not_running:+10'', ''nics>3:+10'',
                   ''high_avg_usage:+15'', ''uptime_days>365:+10''])
   \<and> score_vm all_signals_vm =
        Inr (100, [''snapshot_count>5:+20'', ''max_snapshot_age_days>30:+15'',
                   ''guest_os_legacy:+25'', ''tools_status_not_running:+10'', ''nics>3:+10'',
                   ''high_avg_usage:+15'', ''uptime_days>365:+10''])"
proof -
  have total: "well_formed vm \<longrightarrow> (\<exists>s tr. score_vm vm = Inr (s, tr))"
  proof
    assume "well_formed vm"
    from raw_score_total [OF this] obtain raw trace where "raw_score vm = Inr (raw, trace)"
      by blast
    then have "score_vm vm = Inr (clamp_score raw, trace)"
      by (simp add: score_vm_def)
    then show "\<exists>s tr. score_vm vm = Inr (s, tr)" by blast
  qed
  have bounds: "score_vm vm = Inr (s, tr) \<longrightarrow>
        0 \<le> s \<and> s \<le> 100
        \<and> (\<exists>raw. raw_score vm = Inr (raw, tr) \<and> 0 \<le> raw \<and> raw \<le> 105 \<and> s = min 100 raw
              \<and> (\<exists>snap age guest nic usage up.
                    py_gt (dict_get vm ''snapshot_count'' (PInt 0)) 5 = Inr snap
                  \<and> py_gt (dict_get vm ''max_snapshot_age_days'' (PInt 0)) 30 = Inr age
                  \<and> guest_os_lower vm = Inr guest
                  \<and> py_gt (dict_get vm ''nics'' (PInt 0)) 3 = Inr nic
                  \<and> high_avg_usage vm = Inr usage
                  \<and> py_gt (dict_get vm ''uptime_days'' (PInt 0)) 365 = Inr up
                  \<and> raw = weight 20 snap + weight 15 age
                          + weight 25 (list_ex (\<lambda>tok. sublist tok guest) legacy_tokens)
                          + weight 10 (dict_get vm ''tools_status'' PNone \<noteq> PStr ''running'')
                          + weight 10 nic + weight 15 usage + weight 10 up))"
  proof
    assume sc: "score_vm vm = Inr (s, tr)"
    then obtain raw where raw: "raw_score vm = Inr (raw, tr)" and s: "s = clamp_score raw"
      by (auto simp: score_vm_def split: sum.splits)
    from raw_score_range [OF raw] have range: "0 \<le> raw \<and> raw \<le> 105" .
    with s have min: "s = min 100 raw"
      by (simp add: clamp_score_eq)
    from s have sb: "0 \<le> s \<and> s \<le> 100"
      by (simp add: clamp_score_bounds)
    from raw_score_sum [OF raw] raw range min sb
    show "0 \<le> s \<and> s \<le> 100
        \<and> (\<exists>raw. raw_score vm = Inr (raw, tr) \<and> 0 \<le> raw \<and> raw \<le> 105 \<and> s = min 100 raw
              \<and> (\<exists>snap age guest nic usage up.
                    py_gt (dict_get vm ''snapshot_count'' (PInt 0)) 5 = Inr snap
                  \<and> py_gt (dict_get vm ''max_snapshot_age_days'' (PInt 0)) 30 = Inr age
                  \<and> guest_os_lower vm = Inr guest
                  \<and> py_gt (dict_get vm ''nics'' (PInt 0)) 3 = Inr nic
                  \<and> high_avg_usage vm = Inr usage
                  \<and> py_gt (dict_get vm ''uptime_days'' (PInt 0)) 365 = Inr up
                  \<and> raw = weight 20 snap + weight 15 age
                          + weight 25 (list_ex (\<lambda>tok. sublist tok guest) legacy_tokens)
                          + weight 10 (dict_get vm ''tools_status'' PNone \<noteq> PStr ''running'')
                          + weight 10 nic + weight 15 usage + weight 10 up))"
      by blast
  qed
  have clamp: "clamp_score x = (if 100 < x then 100 else if x < 0 then 0 else x)"
    by (simp add: clamp_score_def Let_def)
  have raw_all: "raw_score all_signals_vm =
        Inr (105, [''snapshot_count>5:+20'', ''max_snapshot_age_days>30:+15'',
                   ''guest_os_legacy:+25'', ''tools_status_not_running:+10'', ''nics>3:+10'',
                   ''high_avg_usage:+15'', ''uptime_days>365:+10''])"
    by (simp add: all_signals_vm_def score_eval string_eval)
  have score_all: "score_vm all_signals_vm =
        Inr (100, [''snapshot_count>5:+20'', ''max_snapshot_age_days>30:+15'',
                   ''guest_os_legacy:+25'', ''tools_status_not_running:+10'', ''nics>3:+10'',
                   ''high_avg_usage:+15'', ''uptime_days>365:+10''])"
    by (simp add: score_vm_def raw_all clamp_score_def)
  show ?thesis
    by (rule conjI [OF total conjI [OF bounds conjI [OF clamp conjI [OF raw_all score_all]]]])
qed

theorem score_bounds_witness:
  "well_formed all_signals_vm
   \<and> (\<exists>s tr. score_vm all_signals_vm = Inr (s, tr))
   \<and> score_vm all_signals_vm =
        Inr (100, [''snapshot_count>5:+20'', ''max_snapshot_age_days>30:+15'',
                   ''guest_os_legacy:+25'', ''tools_status_not_running:+10'', ''nics>3:+10'',
                   ''high_avg_usage:+15'', ''uptime_days>365:+10''])
   \<and> (0::int) \<le> 100 \<and> (100::int) \<le> 100"
proof -
  have w: "well_formed all_signals_vm"
    by (simp add: all_signals_vm_def well_formed_def numeric_fields_def is_number_def
          is_string_def)
  note t = score_bounds [of all_signals_vm 100
      "[''snapshot_count>5:+20'', ''max_snapshot_age_days>30:+15'',
        ''guest_os_legacy:+25'', ''tools_status_not_running:+10'', ''nics>3:+10'',
        ''high_avg_usage:+15'', ''uptime_days>365:+10'']" 0]
  have total: "\<exists>s tr. score_vm all_signals_vm = Inr (s, tr)"
    by (rule t [THEN conjunct1, THEN mp, OF w])
  note sc = t [THEN conjunct2, THEN conjunct2, THEN conjunct2, THEN conjunct2]
  note b = t [THEN conjunct2, THEN conjunct1, THEN mp, OF sc]
  have lo: "(0::int) \<le> 100" by (rule b [THEN conjunct1])
  have hi: "(100::int) \<le> 100" by (rule b [THEN conjunct2, THEN conjunct1])
  show ?thesis
    by (rule conjI [OF w conjI [OF total conjI [OF sc conjI [OF lo hi]]]])
qed

section \<open>Engine construction\<close>

lemma validate_rule_descriptor:
  assumes "descriptor r"
  shows "validate_rule rp r = (if offending rp r then Inl (rule_error rp r) else Inr ())"
proof -
  from assms obtain d where r: "r = PDict d"
    by (cases r) (simp_all add: descriptor_def)
  with assms obtain c where c: "dict_get d ''category'' (PStr []) = PStr c"
    by (cases "dict_get d ''category'' (PStr [])") (simp_all add: descriptor_def is_string_def)
  show ?thesis
    by (simp add: r c offending_def rule_error_def category_of_def confidence_of_def
          rule_field_def Let_def)
qed

lemma validate_rules_find:
  assumes "list_all descriptor rs"
  shows "validate_rules rp rs =
           (case find (offending rp) rs of None \<Rightarrow> Inr () | Some r \<Rightarrow> Inl (rule_error rp r))"
  using assms by (induction rs) (simp_all add: validate_rule_descriptor)

lemma rule_error_is_RuleError:
  "\<exists>field val allowed.
     rule_error rp r = RuleError (py_str rp (rule_field r ''name'' PNone)) field val allowed
     \<and> (allowed = ALLOWED_CATEGORIES \<or> allowed = ALLOWED_CONFIDENCES)"
  by (simp add: rule_error_def)

lemma engine_find:
  assumes "list_all descriptor rs"
  shows "RuleEngine rp (PList rs) =
           (case find (offending rp) rs of
              None \<Rightarrow> Inr \<lparr>rules = rs\<rparr>
            | Some r \<Rightarrow> Inl (rule_error rp r))"
  by (simp add: RuleEngine_def load_rules_def validate_rules_find [OF assms] split: option.splits)

lemma find_None_list_ex: "find P xs = None \<longleftrightarrow> \<not> list_ex P xs"
  by (auto simp: find_None_iff list_ex_iff)

lemma engine_not_list:
  assumes "\<And>rs. data \<noteq> PList rs"
  shows "RuleEngine rp data = Inl (ValueError ''Rules file must be a YAML/JSON list of rules'')"
  using assms by (cases data) (auto simp: RuleEngine_def load_rules_def)

lemma classify_ignores_self: "classify e1 rp vm = classify e2 rp vm"
  by (simp add: classify_def)

text \<open>
  Catalogs of descriptors.  Let the parsed catalog be a list of descriptors (records whose
  category, when present, is a string).  Construction fails if and only if some descriptor
  is offending: its lower-cased category is outside the four categories or its confidence,
  printed with \<^verbatim>\<open>str\<close> and lower-cased, is outside the three confidences.  The error is then
  the one of the first offending descriptor; it carries that rule's name, the offending
  value and the allowed set.  Without an offending descriptor construction succeeds and
  keeps the list.  A parsed document that is not a list fails with the load error.
  \<^verbatim>\<open>classify\<close> never reads the engine, so its outcome, errors included, does not depend on
  the rules.
\<close>

theorem engine_construction:
  "(list_all descriptor rs \<longrightarrow>
      ((\<exists>e. RuleEngine rp (PList rs) = Inl e) \<longleftrightarrow> list_ex (offending rp) rs)
      \<and> ((\<exists>name field val allowed.
             RuleEngine rp (PList rs) = Inl (RuleError name field val allowed))
           \<longleftrightarrow> list_ex (offending rp) rs)
      \<and> (find (offending rp) rs = Some r \<longrightarrow>
             RuleEngine rp (PList rs) =
               Inl (if category_of r \<notin> ALLOWED_CATEGORIES
                    then RuleError (py_str rp (rule_field r ''name'' PNone)) ''category''
                           (category_of r) ALLOWED_CATEGORIES
                    else RuleError (py_str rp (rule_field r ''name'' PNone)) ''confidence''
                           (confidence_of rp r) ALLOWED_CONFIDENCES))
      \<and> (\<not> list_ex (offending rp) rs \<longrightarrow> RuleEngine rp (PList rs) = Inr \<lparr>rules = rs\<rparr>))
   \<and> ((\<forall>xs. data \<noteq> PList xs) \<longrightarrow>
        RuleEngine rp data = Inl (ValueError ''Rules file must be a YAML/JSON list of rules''))
   \<and> classify e1 rp vm = classify e2 rp vm"
proof -
  have typed: "((\<exists>e. RuleEngine rp (PList rs) = Inl e) \<longleftrightarrow> list_ex (offending rp) rs)
      \<and> ((\<exists>name field val allowed.
             RuleEngine rp (PList rs) = Inl (RuleError name field val allowed))
           \<longleftrightarrow> list_ex (offending rp) rs)
      \<and> (find (offending rp) rs = Some r \<longrightarrow>
             RuleEngine rp (PList rs) =
               Inl (if category_of r \<notin> ALLOWED_CATEGORIES
                    then RuleError (py_str rp (rule_field r ''name'' PNone)) ''category''
                           (category_of r) ALLOWED_CATEGORIES
                    else RuleError (py_str rp (rule_field r ''name'' PNone)) ''confidence''
                           (confidence_of rp r) ALLOWED_CONFIDENCES))
      \<and> (\<not> list_ex (offending rp) rs \<longrightarrow> RuleEngine rp (PList rs) = Inr \<lparr>rules = rs\<rparr>)"
    if d: "list_all descriptor rs"
  proof (cases "find (offending rp) rs")
    case None
    then have no: "\<not> list_ex (offending rp) rs" by (simp add: find_None_list_ex)
    from None have "RuleEngine rp (PList rs) = Inr \<lparr>rules = rs\<rparr>"
      by (simp add: engine_find [OF d])
    with None no show ?thesis by simp
  next
    case (Some x)
    then have yes: "list_ex (offending rp) rs"
      using find_None_list_ex [of "offending rp" rs] by simp
    from Some have e: "RuleEngine rp (PList rs) = Inl (rule_error rp x)"
      by (simp add: engine_find [OF d])
    from rule_error_is_RuleError [of rp x] e
    have "\<exists>name field val allowed.
             RuleEngine rp (PList rs) = Inl (RuleError name field val allowed)"
      by auto
    with Some yes e show ?thesis by (auto simp: rule_error_def)
  qed
  have other: "(\<forall>xs. data \<noteq> PList xs) \<longrightarrow>
        RuleEngine rp data = Inl (ValueError ''Rules file must be a YAML/JSON list of rules'')"
    using engine_not_list [of data rp] by blast
  from typed have "list_all descriptor rs \<longrightarrow>
      ((\<exists>e. RuleEngine rp (PList rs) = Inl e) \<longleftrightarrow> list_ex (offending rp) rs)
      \<and> ((\<exists>name field val allowed.
             RuleEngine rp (PList rs) = Inl (RuleError name field val allowed))
           \<longleftrightarrow> list_ex (offending rp) rs)
      \<and> (find (offending rp) rs = Some r \<longrightarrow>
             RuleEngine rp (PList rs) =
               Inl (if category_of r \<notin> ALLOWED_CATEGORIES
                    then RuleError (py_str rp (rule_field r ''name'' PNone)) ''category''
                           (category_of r) ALLOWED_CATEGORIES
                    else RuleError (py_str rp (rule_field r ''name'' PNone)) ''confidence''
                           (confidence_of rp r) ALLOWED_CONFIDENCES))
      \<and> (\<not> list_ex (offending rp) rs \<longrightarrow> RuleEngine rp (PList rs) = Inr \<lparr>rules = rs\<rparr>)"
    by (rule impI)
  then show ?thesis
    by (rule conjI [OF _ conjI [OF other classify_ignores_self]])
qed


lemmas rule_eval =
  descriptor_def offending_def category_of_def confidence_of_def rule_field_def
  ALLOWED_CATEGORIES_def ALLOWED_CONFIDENCES_def is_string_def no_printer_def dict_get_def

theorem engine_construction_witness:
  "list_all descriptor bad_catalog
   \<and> find (offending no_printer) bad_catalog =
       Some (PDict [(''name'', PStr ''numeric''), (''category'', PStr ''keep''),
                    (''confidence'', PInt 90)])
   \<and> RuleEngine no_printer (PList bad_catalog) =
       Inl (RuleError ''numeric'' ''confidence'' ''90'' ALLOWED_CONFIDENCES)
   \<and> list_all descriptor good_catalog
   \<and> \<not> list_ex (offending no_printer) good_catalog
   \<and> RuleEngine no_printer (PList good_catalog) = Inr \<lparr>rules = good_catalog\<rparr>
   \<and> RuleEngine no_printer (PDict []) =
       Inl (ValueError ''Rules file must be a YAML/JSON list of rules'')"
proof -
  let ?r = "PDict [(''name'', PStr ''numeric''), (''category'', PStr ''keep''),
                   (''confidence'', PInt 90)]"
  have d1: "list_all descriptor bad_catalog"
    by (simp add: bad_catalog_def rule_eval)
  have f: "find (offending no_printer) bad_catalog = Some ?r"
    by (simp add: bad_catalog_def rule_eval string_eval)
  have err: "(if category_of ?r \<notin> ALLOWED_CATEGORIES
              then RuleError (py_str no_printer (rule_field ?r ''name'' PNone)) ''category''
                     (category_of ?r) ALLOWED_CATEGORIES
              else RuleError (py_str no_printer (rule_field ?r ''name'' PNone)) ''confidence''
                     (confidence_of no_printer ?r) ALLOWED_CONFIDENCES)
             = RuleError ''numeric'' ''confidence'' ''90'' ALLOWED_CONFIDENCES"
    by (simp add: category_of_def confidence_of_def rule_field_def dict_get_def
          ALLOWED_CATEGORIES_def string_eval)
  note t1 = engine_construction [of bad_catalog no_printer ?r "PDict []" an_engine zombie_vm
      an_engine]
  have e1: "RuleEngine no_printer (PList bad_catalog) =
       Inl (RuleError ''numeric'' ''confidence'' ''90'' ALLOWED_CONFIDENCES)"
    using t1 [THEN conjunct1, THEN mp, OF d1, THEN conjunct2, THEN conjunct2, THEN conjunct1,
              THEN mp, OF f]
    unfolding err .
  have nl: "\<forall>xs. PDict [] \<noteq> PList xs" by simp
  have e3: "RuleEngine no_printer (PDict []) =
       Inl (ValueError ''Rules file must be a YAML/JSON list of rules'')"
    by (rule t1 [THEN conjunct2, THEN conjunct1, THEN mp, OF nl])
  have d2: "list_all descriptor good_catalog"
    by (simp add: good_catalog_def rule_eval)
  have ok: "\<not> list_ex (offending no_printer) good_catalog"
    by (simp add: good_catalog_def rule_eval string_eval)
  note t2 = engine_construction [of good_catalog no_printer ?r "PDict []" an_engine zombie_vm
      an_engine]
  have e2: "RuleEngine no_printer (PList good_catalog) = Inr \<lparr>rules = good_catalog\<rparr>"
    by (rule t2 [THEN conjunct1, THEN mp, OF d2, THEN conjunct2, THEN conjunct2, THEN conjunct2,
              THEN mp, OF ok])
  show ?thesis
    by (rule conjI [OF d1 conjI [OF f conjI [OF e1 conjI [OF d2 conjI [OF ok
          conjI [OF e2 e3]]]]]])
qed

lemma ill_typed_descriptor_raises:
  "\<not> descriptor r \<Longrightarrow> validate_rule rp r = Inl AttributeError"
proof (cases r)
  case (PDict d)
  assume "\<not> descriptor r"
  with PDict show ?thesis
    by (cases "dict_get d ''category'' (PStr [])") (simp_all add: descriptor_def is_string_def)
qed simp_all

text \<open>
  C3.  Construction is specified to fail, with an error that names the offending rule and
  the allowed set, whenever a descriptor's category is outside the four categories.  The
  code does not do so for a category that is not a string: on the catalog
  \<^verbatim>\<open>[{name: a, category: null, confidence: low}]\<close> it fails with the \<^verbatim>\<open>AttributeError\<close> of
  \<^verbatim>\<open>None.lower()\<close>, which names neither.  The confidence is passed through \<^verbatim>\<open>str\<close> first, so
  the same catalog with the \<^verbatim>\<open>null\<close> in the confidence fails as specified, naming rule
  \<^verbatim>\<open>a\<close>, the value \<^verbatim>\<open>none\<close> and the allowed set.
\<close>

theorem null_category_not_named:
  "rule_field (hd null_category_catalog) ''category'' (PStr []) = PNone
   \<and> category_of (hd null_category_catalog) \<notin> ALLOWED_CATEGORIES
   \<and> RuleEngine no_printer (PList null_category_catalog) = Inl AttributeError
   \<and> RuleEngine no_printer (PList null_confidence_catalog) =
        Inl (RuleError ''a'' ''confidence'' ''none'' ALLOWED_CONFIDENCES)"
  by (simp add: null_category_catalog_def null_confidence_catalog_def RuleEngine_def
        load_rules_def rule_eval string_eval)

section \<open>Malformed and missing numeric fields\<close>

lemma eval_condition_numeric:
  assumes f: "dict_get cond ''field'' PNone = PStr field"
    and op: "dict_get cond ''op'' PNone = PStr op"
    and n: "op \<in> {''gt'', ''gte'', ''lt'', ''lte''}"
  shows "eval_condition B vm cond =
           Inr (try_compare B
                  (if op = ''gt'' then (\<lambda>x y. float_less y x)
                   else if op = ''gte'' then (\<lambda>x y. float_less_eq y x)
                   else if op = ''lt'' then float_less
                   else float_less_eq)
                  (dict_get vm field PNone) (dict_get cond ''value'' PNone))"
  using n by (auto simp: eval_condition_def f op Let_def)

lemma try_compare_fails:
  "py_float B a = Inl e \<or> py_float B b = Inl e \<Longrightarrow> try_compare B rel a b = False"
  by (auto simp: try_compare_def split: sum.splits)

lemma py_float_None: "py_float B PNone = Inl TypeError"
  by simp

lemma missing_gt: "map_of vm k = None \<Longrightarrow> py_gt (dict_get vm k (PInt d)) n = Inr (n < d)"
  by (simp add: dict_get_def)

lemma missing_le: "map_of vm k = None \<Longrightarrow> py_le (dict_get vm k (PInt d)) n = Inr (d \<le> n)"
  by (simp add: dict_get_def)

text \<open>
  C2 as stated fails: the cascade compares a field with no \<^verbatim>\<open>try\<close> around it, and a record
  whose snapshot count is the string \<^verbatim>\<open>"many"\<close> makes \<^verbatim>\<open>classify\<close> raise \<^verbatim>\<open>TypeError\<close>.
\<close>

theorem malformed_field_counterexample:
  "dict_get malformed_vm ''snapshot_count'' (PInt 0) = PStr ''many''
   \<and> classify an_engine no_printer malformed_vm = Inl TypeError"
  by (simp add: malformed_vm_def classify_eval string_eval)

text \<open>
  C2, as amended.  \<^verbatim>\<open>classify\<close> returns a result for every well-formed record: one whose
  numeric fields are each absent or numbers, whose guest OS is absent, \<^verbatim>\<open>None\<close> or a string
  and whose tags are absent or a list of strings.  An absent numeric field takes the
  default of its \<^verbatim>\<open>get\<close>, so a \<^verbatim>\<open>>\<close>-comparison on it is false and a \<^verbatim>\<open><=\<close>-comparison true.
  In the generic condition evaluator the operators \<^verbatim>\<open>gt\<close>, \<^verbatim>\<open>gte\<close>, \<^verbatim>\<open>lt\<close> and \<^verbatim>\<open>lte\<close>, on
  a condition whose field name is a string, never raise, and they evaluate to false when
  the field is absent or either operand cannot be converted to a float; a value that is
  neither a number nor a string never converts.
\<close>

theorem classify_total_eval_lenient:
  "(well_formed vm \<longrightarrow> (\<exists>r. classify self rp vm = Inr r))
   \<and> (map_of vm k = None \<and> 0 \<le> n \<longrightarrow> py_gt (dict_get vm k (PInt 0)) n = Inr False)
   \<and> (map_of vm k = None \<and> d \<le> m \<longrightarrow> py_le (dict_get vm k (PInt d)) m = Inr True)
   \<and> (dict_get cond ''field'' PNone = PStr field \<and> dict_get cond ''op'' PNone = PStr op
        \<and> op \<in> {''gt'', ''gte'', ''lt'', ''lte''} \<longrightarrow>
        (\<exists>b. eval_condition B vm cond = Inr b)
        \<and> ((\<exists>e. py_float B (dict_get vm field PNone) = Inl e
                 \<or> py_float B (dict_get cond ''value'' PNone) = Inl e) \<longrightarrow>
             eval_condition B vm cond = Inr False)
        \<and> (map_of vm field = None \<longrightarrow> eval_condition B vm cond = Inr False))
   \<and> (\<not> is_number v \<and> \<not> is_string v \<longrightarrow> py_float B v = Inl TypeError)"
proof -
  have total: "well_formed vm \<longrightarrow> (\<exists>r. classify self rp vm = Inr r)"
    using classify_total [of vm self rp] by blast
  have gt: "map_of vm k = None \<and> 0 \<le> n \<longrightarrow> py_gt (dict_get vm k (PInt 0)) n = Inr False"
    by (simp add: missing_gt)
  have le: "map_of vm k = None \<and> d \<le> m \<longrightarrow> py_le (dict_get vm k (PInt d)) m = Inr True"
    by (simp add: missing_le)
  have ev: "dict_get cond ''field'' PNone = PStr field \<and> dict_get cond ''op'' PNone = PStr op
        \<and> op \<in> {''gt'', ''gte'', ''lt'', ''lte''} \<longrightarrow>
        (\<exists>b. eval_condition B vm cond = Inr b)
        \<and> ((\<exists>e. py_float B (dict_get vm field PNone) = Inl e
                 \<or> py_float B (dict_get cond ''value'' PNone) = Inl e) \<longrightarrow>
             eval_condition B vm cond = Inr False)
        \<and> (map_of vm field = None \<longrightarrow> eval_condition B vm cond = Inr False)"
  proof (intro impI, elim conjE)
    assume f: "dict_get cond ''field'' PNone = PStr field"
      and op: "dict_get cond ''op'' PNone = PStr op"
      and n: "op \<in> {''gt'', ''gte'', ''lt'', ''lte''}"
    note e = eval_condition_numeric [OF f op n, of B vm]
    have 1: "\<exists>b. eval_condition B vm cond = Inr b"
      unfolding e by blast
    have 2: "(\<exists>e. py_float B (dict_get vm field PNone) = Inl e
                 \<or> py_float B (dict_get cond ''value'' PNone) = Inl e) \<longrightarrow>
             eval_condition B vm cond = Inr False"
      unfolding e using try_compare_fails [of B "dict_get vm field PNone" _
          "dict_get cond ''value'' PNone"] by blast
    have 3: "map_of vm field = None \<longrightarrow> eval_condition B vm cond = Inr False"
    proof
      assume "map_of vm field = None"
      then have "py_float B (dict_get vm field PNone) = Inl TypeError"
        by (simp add: dict_get_def)
      with 2 show "eval_condition B vm cond = Inr False" by blast
    qed
    from 1 2 3 show "(\<exists>b. eval_condition B vm cond = Inr b)
        \<and> ((\<exists>e. py_float B (dict_get vm field PNone) = Inl e
                 \<or> py_float B (dict_get cond ''value'' PNone) = Inl e) \<longrightarrow>
             eval_condition B vm cond = Inr False)
        \<and> (map_of vm field = None \<longrightarrow> eval_condition B vm cond = Inr False)"
      by (intro conjI)
  qed
  have fl: "\<not> is_number v \<and> \<not> is_string v \<longrightarrow> py_float B v = Inl TypeError"
    by (cases v) (simp_all add: is_number_def is_string_def)
  show ?thesis
    by (rule conjI [OF total conjI [OF gt conjI [OF le conjI [OF ev fl]]]])
qed

theorem classify_total_eval_lenient_witness:
  "well_formed bare_vm
   \<and> (\<exists>r. classify an_engine no_printer bare_vm = Inr r)
   \<and> map_of bare_vm ''nics'' = None
   \<and> py_gt (dict_get bare_vm ''nics'' (PInt 0)) 3 = Inr False
   \<and> py_le (dict_get bare_vm ''nics'' (PInt 1)) 1 = Inr True
   \<and> dict_get snapshot_cond ''field'' PNone = PStr ''snapshot_count''
   \<and> dict_get snapshot_cond ''op'' PNone = PStr ''gt''
   \<and> py_float example_builtins (dict_get malformed_vm ''snapshot_count'' PNone) =
        Inl (ValueError ''could not convert string to float'')
   \<and> eval_condition example_builtins malformed_vm snapshot_cond = Inr False
   \<and> eval_condition example_builtins bare_vm snapshot_cond = Inr False
   \<and> py_float example_builtins (PList []) = Inl TypeError"
proof -
  have w: "well_formed bare_vm"
    by (simp add: bare_vm_def well_formed_def numeric_fields_def is_number_def is_string_def)
  have k: "map_of bare_vm ''nics'' = None"
    by (simp add: bare_vm_def)
  have f: "dict_get snapshot_cond ''field'' PNone = PStr ''snapshot_count''"
    by (simp add: snapshot_cond_def dict_get_def)
  have op: "dict_get snapshot_cond ''op'' PNone = PStr ''gt''"
    by (simp add: snapshot_cond_def dict_get_def)
  have n: "''gt'' \<in> {''gt'', ''gte'', ''lt'', ''lte''}"
    by simp
  have pf: "py_float example_builtins (dict_get malformed_vm ''snapshot_count'' PNone) =
        Inl (ValueError ''could not convert string to float'')"
    by (simp add: malformed_vm_def dict_get_def example_builtins_def)
  have m: "map_of bare_vm ''snapshot_count'' = None"
    by (simp add: bare_vm_def)
  have nn: "\<not> is_number (PList []) \<and> \<not> is_string (PList [])"
    by (simp add: is_number_def is_string_def)
  note t = classify_total_eval_lenient [of malformed_vm an_engine no_printer "''nics''" 3
      1 1 snapshot_cond "''snapshot_count''" "''gt''" example_builtins "PList []"]
  note u = classify_total_eval_lenient [of bare_vm an_engine no_printer "''nics''" 3
      1 1 snapshot_cond "''snapshot_count''" "''gt''" example_builtins "PList []"]
  have total: "\<exists>r. classify an_engine no_printer bare_vm = Inr r"
    by (rule u [THEN conjunct1, THEN mp, OF w])
  have gt: "py_gt (dict_get bare_vm ''nics'' (PInt 0)) 3 = Inr False"
    by (rule u [THEN conjunct2, THEN conjunct1, THEN mp]) (simp add: k)
  have le: "py_le (dict_get bare_vm ''nics'' (PInt 1)) 1 = Inr True"
    using u [THEN conjunct2, THEN conjunct2, THEN conjunct1] k by simp
  note ev = t [THEN conjunct2, THEN conjunct2, THEN conjunct2, THEN conjunct1, THEN mp,
      OF conjI [OF f conjI [OF op n]]]
  have e1: "eval_condition example_builtins malformed_vm snapshot_cond = Inr False"
    by (rule ev [THEN conjunct2, THEN conjunct1, THEN mp]) (rule exI, rule disjI1, rule pf)
  note ev2 = u [THEN conjunct2, THEN conjunct2, THEN conjunct2, THEN conjunct1, THEN mp,
      OF conjI [OF f conjI [OF op n]]]
  have e2: "eval_condition example_builtins bare_vm snapshot_cond = Inr False"
    by (rule ev2 [THEN conjunct2, THEN conjunct2, THEN mp, OF m])
  have fl: "py_float example_builtins (PList []) = Inl TypeError"
    by (rule t [THEN conjunct2, THEN conjunct2, THEN conjunct2, THEN conjunct2, THEN mp, OF nn])
  show ?thesis
    by (rule conjI [OF w conjI [OF total conjI [OF k conjI [OF gt conjI [OF le conjI [OF f
          conjI [OF op conjI [OF pf conjI [OF e1 conjI [OF e2 fl]]]]]]]]]])
qed

end
